theory Spec2Isabelle
  imports Main
begin

section \<open>The Docker executor of box (builder/executor/docker/docker.go)\<close>

text \<open>
  The executor drives a container engine through a client library and touches the local
  operating system (a terminal, a spool file). Neither is code of the executor, so both
  are a parameter of the model: an environment \<open>env\<close> of operations on a world
  \<open>'w\<close> (the engine's and the machine's state). Every theorem below holds for
  every environment; concrete environments appear only in examples.

  A Go \<open>error\<close> is modelled by its text, \<open>nil\<close> by \<open>None\<close>. A Go
  function returning \<open>(T, error)\<close> whose value is ignored when the error is set
  returns a sum (\<open>Inl\<close> the error); one that returns both returns a pair.
\<close>

type_synonym error = string

subsection \<open>Data\<close>

text \<open>
  \<open>config.Config\<close>: the executor reads and writes its \<open>Image\<close> field; the other
  settings (environment, command, working directory, ports) belong to the config package
  and stay opaque.
\<close>

record 'c Config =
  Image :: string
  settings :: 'c

text \<open>The \<open>Docker\<close> struct, without its client handle (the environment).\<close>

record 'c Docker =
  config :: "'c Config"
  useCache :: bool
  tty :: bool
  stdin :: bool

text \<open>The fields of \<open>types.ImageSummary\<close> and \<open>types.ImageInspect\<close> that are read.\<close>

record ImageSummary =
  img_ID :: string
  img_ParentID :: string

record 'dc ImageInspect =
  insp_Comment :: string
  insp_Config :: 'dc

text \<open>The values \<open>json.Unmarshal\<close> stores in a \<open>map[string]interface{}\<close>.\<close>

datatype json =
    JNull
  | JBool bool
  | JNumber string
  | JString string
  | JArray "json list"
  | JObject "(string \<times> json) list"

text \<open>
  The environment. Engine calls are the methods of \<open>client.Client\<close> that the
  executor uses; listing and inspecting images read the engine without changing it.
  \<open>container_exists\<close> is not a call the executor makes: it is the observation
  "the engine has this container", used to state what cleanup achieves.
  \<open>ImageImport\<close> answers with the transport result and, inside it, the result of
  reading the whole response body.
\<close>

record ('w, 'c, 'dc, 'img) env =
  ImageList :: "'w \<Rightarrow> error + ImageSummary list"
  ImageInspectWithRaw :: "string \<Rightarrow> 'w \<Rightarrow> error + 'dc ImageInspect"
  ContainerCreate :: "'dc \<Rightarrow> 'w \<Rightarrow> (string \<times> error option) \<times> 'w"
  ContainerRemove :: "string \<Rightarrow> bool \<Rightarrow> 'w \<Rightarrow> error option \<times> 'w"
  ContainerCommit :: "string \<Rightarrow> 'dc \<Rightarrow> string \<Rightarrow> 'w \<Rightarrow> (error + string) \<times> 'w"
  ContainerAttach :: "string \<Rightarrow> bool \<Rightarrow> 'w \<Rightarrow> error option \<times> 'w"
  AttachClose :: "string \<Rightarrow> 'w \<Rightarrow> 'w"
  ContainerStart :: "string \<Rightarrow> 'w \<Rightarrow> error option \<times> 'w"
  ContainerWait :: "string \<Rightarrow> 'w \<Rightarrow> (error + int) \<times> 'w"
  ImageImport :: "string \<Rightarrow> string \<Rightarrow> 'w \<Rightarrow> (error + (error + string)) \<times> 'w"
  container_exists :: "'w \<Rightarrow> string \<Rightarrow> bool"
  SetRawTerminal :: "'w \<Rightarrow> (error + nat) \<times> 'w"
  RestoreTerminal :: "nat \<Rightarrow> 'w \<Rightarrow> 'w"
  TempFile :: "'w \<Rightarrow> (error + string) \<times> 'w"
  CopyToFile :: "string \<Rightarrow> string \<Rightarrow> 'w \<Rightarrow> error option \<times> 'w"
  RemoveFile :: "string \<Rightarrow> 'w \<Rightarrow> 'w"
  CreateTestFile :: "'w \<Rightarrow> error option \<times> 'w"
  ToDocker :: "'c Config \<Rightarrow> bool \<Rightarrow> bool \<Rightarrow> 'dc"
  FromDocker :: "'dc \<Rightarrow> 'c Config \<Rightarrow> 'c Config"
  ToImage :: "'c Config \<Rightarrow> string list \<Rightarrow> 'img"
  MarshalImage :: "'img \<Rightarrow> error + string"
  Marshal :: "json \<Rightarrow> error + string"
  Unmarshal :: "string \<Rightarrow> error + (string \<rightharpoonup> json)"
  Quote :: "string \<Rightarrow> string"

subsection \<open>CheckCache\<close>

text \<open>
  The \<open>for _, img := range images\<close> loop of \<open>CheckCache\<close>: an image whose parent
  is the current image is inspected; a failed inspection returns \<open>(false, err)\<close>, a
  matching comment loads the inspected config, sets the image and returns
  \<open>(true, nil)\<close>; after the last image the function returns \<open>(false, nil)\<close>.
\<close>

fun CheckCache_range ::
  "('w, 'c, 'dc, 'img) env \<Rightarrow> 'w \<Rightarrow> string \<Rightarrow> 'c Docker \<Rightarrow> ImageSummary list
    \<Rightarrow> (bool \<times> error option) \<times> 'c Docker" where
  "CheckCache_range E w cacheKey d [] = ((False, None), d)"
| "CheckCache_range E w cacheKey d (img # images) =
     (if img_ParentID img = Image (config d) then
        (case ImageInspectWithRaw E (img_ID img) w of
           Inl err \<Rightarrow> ((False, Some err), d)
         | Inr inspect \<Rightarrow>
             if insp_Comment inspect = cacheKey then
               ((True, None),
                d\<lparr>config := (FromDocker E (insp_Config inspect) (config d))\<lparr>Image := img_ID img\<rparr>\<rparr>)
             else CheckCache_range E w cacheKey d images)
      else CheckCache_range E w cacheKey d images)"

definition CheckCache ::
  "('w, 'c, 'dc, 'img) env \<Rightarrow> string \<Rightarrow> 'c Docker \<times> 'w \<Rightarrow> (bool \<times> error option) \<times> 'c Docker" where
  "CheckCache E cacheKey s =
     (case s of (d, w) \<Rightarrow>
        if \<not> useCache d then ((False, None), d)
        else if Image (config d) \<noteq> [] then
          (case ImageList E w of
             Inl err \<Rightarrow> ((False, Some err), d)
           | Inr images \<Rightarrow> CheckCache_range E w cacheKey d images)
        else ((False, None), d))"

subsection \<open>Create, Destroy and Commit\<close>

text \<open>\<open>Create\<close> hands back the engine's answer: the id and the error, both.\<close>

definition Create ::
  "('w, 'c, 'dc, 'img) env \<Rightarrow> 'c Docker \<times> 'w \<Rightarrow> (string \<times> error option) \<times> 'w" where
  "Create E s = (case s of (d, w) \<Rightarrow> ContainerCreate E (ToDocker E (config d) (tty d) (stdin d)) w)"

text \<open>\<open>Destroy\<close> is the engine's removal with \<open>Force: true\<close>, its error returned as it is.\<close>

definition Destroy :: "('w, 'c, 'dc, 'img) env \<Rightarrow> string \<Rightarrow> 'w \<Rightarrow> error option \<times> 'w" where
  "Destroy E cid w = ContainerRemove E cid True w"

text \<open>
  An \<open>executor.Hook\<close> is a \<open>func(id string) (string, error)\<close>: it may act on the world and
  returns an overriding cache key together with an error.
\<close>

type_synonym 'w hook = "string \<Rightarrow> 'w \<Rightarrow> (string \<times> error option) \<times> 'w"

text \<open>
  Lines 109-118 of \<open>Commit\<close>: the hook, when there is one, runs on the container; its
  error ends the function, and its key replaces \<open>cacheKey\<close> unless it is empty.
\<close>

definition Commit_hook ::
  "'w hook option \<Rightarrow> string \<Rightarrow> string \<Rightarrow> 'w \<Rightarrow> (error + string) \<times> 'w" where
  "Commit_hook hook cacheKey cid w =
     (case hook of
        None \<Rightarrow> (Inr cacheKey, w)
      | Some h \<Rightarrow>
          (case h cid w of
             ((tmp, Some err), w') \<Rightarrow> (Inl err, w')
           | ((tmp, None), w') \<Rightarrow> (Inr (if tmp \<noteq> [] then tmp else cacheKey), w')))"

text \<open>
  Lines 109-133: hook, engine commit with the key as the image's comment, removal of the
  container without force, and only then the assignment to \<open>d.config.Image\<close>.
  \<open>fmt.Errorf\<close>'s \<open>%v\<close> prints the error's text and \<open>%q\<close> the quoted id.
\<close>

definition Commit_steps ::
  "('w, 'c, 'dc, 'img) env \<Rightarrow> string \<Rightarrow> 'w hook option \<Rightarrow> string \<Rightarrow> 'c Docker \<times> 'w
    \<Rightarrow> error option \<times> 'c Docker \<times> 'w" where
  "Commit_steps E cacheKey hook cid s =
     (case s of (d, w) \<Rightarrow>
        (case Commit_hook hook cacheKey cid w of
           (Inl err, w1) \<Rightarrow> (Some err, d, w1)
         | (Inr key, w1) \<Rightarrow>
             (case ContainerCommit E cid (ToDocker E (config d) (tty d) (stdin d)) key w1 of
                (Inl err, w2) \<Rightarrow> (Some (''Error during commit: '' @ err), d, w2)
              | (Inr newID, w2) \<Rightarrow>
                  (case ContainerRemove E cid False w2 of
                     (Some err, w3) \<Rightarrow>
                       (Some (''Could not remove intermediate container '' @ Quote E cid @ '': '' @ err),
                        d, w3)
                   | (None, w3) \<Rightarrow> (None, d\<lparr>config := (config d)\<lparr>Image := newID\<rparr>\<rparr>, w3)))))"

text \<open>
  \<open>Commit\<close>: a failed \<open>Create\<close> returns its error at once; otherwise the steps run and
  the deferred function destroys the container on every way out, its error dropped.
  The signal listener of lines 94-101 does nothing unless a signal arrives, and then
  only issues the same forced removal from another goroutine; it is not part of the
  sequential model.
\<close>

definition Commit ::
  "('w, 'c, 'dc, 'img) env \<Rightarrow> string \<Rightarrow> 'w hook option \<Rightarrow> 'c Docker \<times> 'w
    \<Rightarrow> error option \<times> 'c Docker \<times> 'w" where
  "Commit E cacheKey hook s =
     (case Create E s of
        ((cid, Some err), w1) \<Rightarrow> (Some err, fst s, w1)
      | ((cid, None), w1) \<Rightarrow>
          (case Commit_steps E cacheKey hook cid (fst s, w1) of
             (r, d', w2) \<Rightarrow> (r, d', snd (Destroy E cid w2))))"

subsection \<open>RunHook\<close>

text \<open>\<open>%d\<close> of the exit status: the decimal digits, with a minus sign below zero.\<close>

function nat_digits :: "nat \<Rightarrow> string" where
  "nat_digits n =
     (if n < 10 then [char_of (48 + n)] else nat_digits (n div 10) @ [char_of (48 + n mod 10)])"
  by pat_completeness auto
termination
  by (relation "measure id") auto

declare nat_digits.simps [simp del]

definition itoa :: "int \<Rightarrow> string" where
  "itoa i = (if i < 0 then CHR ''-'' # nat_digits (nat (- i)) else nat_digits (nat i))"

text \<open>
  Lines 527-592, after the attach: start the container, wait for it, turn a non-zero
  status into an error. The copy loops and the two watcher goroutines only move bytes
  and cancel the wait; a cancelled or failed wait is the \<open>Inl\<close> answer of
  \<open>ContainerWait\<close>. The returned key is the empty string on every path.
\<close>

definition RunHook_wait ::
  "('w, 'c, 'dc, 'img) env \<Rightarrow> string \<Rightarrow> 'w \<Rightarrow> (string \<times> error option) \<times> 'w" where
  "RunHook_wait E cid w =
     (case ContainerStart E cid w of
        (Some err, w1) \<Rightarrow> (([], Some (''Could not start container: '' @ err)), w1)
      | (None, w1) \<Rightarrow>
          (case ContainerWait E cid w1 of
             (Inl err, w2) \<Rightarrow> (([], Some err), w2)
           | (Inr stat, w2) \<Rightarrow>
               if stat \<noteq> 0 then
                 (([], Some (''Command exited with status '' @ itoa stat @ '' for container ''
                             @ Quote E cid)), w2)
               else (([], None), w2)))"

text \<open>
  \<open>RunHook\<close>: attach; with stdin the terminal goes raw and its restoration is deferred;
  closing the attached connection is deferred after that, so it runs first.
\<close>

definition RunHook ::
  "('w, 'c, 'dc, 'img) env \<Rightarrow> 'c Docker \<Rightarrow> 'w hook" where
  "RunHook E d cid w =
     (case ContainerAttach E cid (stdin d) w of
        (Some err, w1) \<Rightarrow> (([], Some (''Could not attach to container: '' @ err)), w1)
      | (None, w1) \<Rightarrow>
          if stdin d then
            (case SetRawTerminal E w1 of
               (Inl err, w2) \<Rightarrow> (([], Some (''Could not attach terminal to container: '' @ err)), w2)
             | (Inr state, w2) \<Rightarrow>
                 (case RunHook_wait E cid w2 of
                    (r, w3) \<Rightarrow> (r, RestoreTerminal E state (AttachClose E cid w3))))
          else
            (case RunHook_wait E cid w1 of (r, w3) \<Rightarrow> (r, AttachClose E cid w3)))"

subsection \<open>CopyToContainer: the image archive and its import\<close>

text \<open>The fields of \<open>tar.Header\<close> that the executor sets, the three time stamps apart.\<close>

record Header =
  Name :: string
  Linkname :: string
  Uname :: string
  Gname :: string
  Size :: int
  Mode :: nat
  Typeflag :: char

text \<open>
  What a \<open>tar.Writer\<close> has been given: the members in order, each a header with the
  payload written for it so far. \<open>WriteHeader\<close> refuses to start a member while the
  previous one is short of its declared size; \<open>Write\<close> takes no more than the declared
  size and reports the excess.
\<close>

type_synonym archive = "(Header \<times> string) list"

definition missing :: "archive \<Rightarrow> int" where
  "missing a = (case a of [] \<Rightarrow> 0 | _ \<Rightarrow> Size (fst (last a)) - int (length (snd (last a))))"

definition WriteHeader :: "Header \<Rightarrow> archive \<Rightarrow> error option \<times> archive" where
  "WriteHeader h a =
     (if missing a > 0 then (Some (''archive/tar: missed writing '' @ itoa (missing a) @ '' bytes''), a)
      else if Size h < 0 then (Some ''archive/tar: negative size on header-only type'', a)
      else (None, a @ [(h, [])]))"

definition Write :: "string \<Rightarrow> archive \<Rightarrow> error option \<times> archive" where
  "Write b a =
     (if int (length b) \<le> missing a then
        (None, butlast a @ [(fst (last a), snd (last a) @ b)])
      else if a = [] then (Some ''archive/tar: write too long'', a)
      else (Some ''archive/tar: write too long'',
            butlast a @ [(fst (last a), snd (last a) @ take (nat (missing a)) b)]))"

text \<open>
  The header that lines 322-333, 350-361 and 378-389 fill in: a regular file owned by
  root, mode 0666, its link name the same as its name, of the given size.
\<close>

definition regular_header :: "string \<Rightarrow> nat \<Rightarrow> Header" where
  "regular_header name n =
     \<lparr>Name = name, Linkname = name, Uname = ''root'', Gname = ''root'',
      Size = int n, Mode = 438, Typeflag = CHR ''0''\<rparr>"

text \<open>
  One \<open>WriteHeader\<close> and \<open>Write\<close> pair; the source has three of them, alike but for the
  name and the content (lines 322-343, 350-371 and 378-399). The declared size is
  \<open>int64(len(content))\<close>.
\<close>

definition WriteMember :: "string \<Rightarrow> string \<Rightarrow> archive \<Rightarrow> error option \<times> archive" where
  "WriteMember name content a =
     (case WriteHeader (regular_header name (length content)) a of
        (Some err, a1) \<Rightarrow> (Some err, a1)
      | (None, a1) \<Rightarrow> Write content a1)"

text \<open>
  Lines 256-268: the names and the two documents. A Go map has no order of its own; the
  members of an object are listed by key, the order in which \<open>json.Marshal\<close> writes them.
\<close>

definition jsonFile :: "string \<Rightarrow> string" where
  "jsonFile copyID = copyID @ ''.json''"

definition tarFile :: "string \<Rightarrow> string" where
  "tarFile copyID = copyID @ ''/layer.tar''"

definition repos :: "string \<Rightarrow> json" where
  "repos copyID = JObject [(copyID, JObject [(''latest'', JString copyID)])]"

definition manifest :: "string \<Rightarrow> json" where
  "manifest copyID =
     JArray [JObject [(''Config'', JString (jsonFile copyID)),
                      (''Layers'', JArray [JString (tarFile copyID)]),
                      (''RepoTags'', JArray [JString copyID])]]"

text \<open>
  Lines 315-402: the three members, each marshalled and then written. The archive is the
  second component, also when an error ends the function early.
\<close>

definition BuildArchive ::
  "('w, 'c, 'dc, 'img) env \<Rightarrow> string \<Rightarrow> 'c Config \<Rightarrow> error option \<times> archive" where
  "BuildArchive E copyID c =
     (case MarshalImage E (ToImage E c [copyID]) of
        Inl err \<Rightarrow> (Some err, [])
      | Inr content1 \<Rightarrow>
          (case WriteMember (jsonFile copyID) content1 [] of
             (Some err, a1) \<Rightarrow> (Some err, a1)
           | (None, a1) \<Rightarrow>
               (case Marshal E (repos copyID) of
                  Inl err \<Rightarrow> (Some err, a1)
                | Inr content2 \<Rightarrow>
                    (case WriteMember ''repositories'' content2 a1 of
                       (Some err, a2) \<Rightarrow> (Some err, a2)
                     | (None, a2) \<Rightarrow>
                         (case Marshal E (manifest copyID) of
                            Inl err \<Rightarrow> (Some err, a2)
                          | Inr content3 \<Rightarrow> WriteMember ''manifest.json'' content3 a2)))))"

text \<open>\<open>bytes.Split(content, []byte("\r\n"))\<close>: the pieces between carriage return, line feed pairs.\<close>

fun Split_crlf :: "string \<Rightarrow> string list" where
  "Split_crlf [] = [[]]"
| "Split_crlf [c] = [[c]]"
| "Split_crlf (c # c' # cs) =
     (if c = CHR 0x0D \<and> c' = CHR 0x0A then [] # Split_crlf cs
      else (case Split_crlf (c' # cs) of
              [] \<Rightarrow> [[c]]
            | l # ls \<Rightarrow> (c # l) # ls))"

text \<open>
  Lines 296-309: every piece is unmarshalled into a map; a piece that does not unmarshal
  ends the scan with that error, and so does a piece whose \<open>error\<close> member is a string,
  with that string as the error.
\<close>

fun ScanLines :: "('w, 'c, 'dc, 'img) env \<Rightarrow> string list \<Rightarrow> error option" where
  "ScanLines E [] = None"
| "ScanLines E (line # lines) =
     (case Unmarshal E line of
        Inl err \<Rightarrow> Some err
      | Inr result \<Rightarrow>
          (case result ''error'' of
             Some (JString res) \<Rightarrow> Some res
           | _ \<Rightarrow> ScanLines E lines))"

text \<open>
  Lines 284-313, the importing goroutine, whose result the main goroutine receives at
  line 455. It first copies the pipe to standard output until the pipe is closed, so the
  reader it then hands to \<open>ImageImport\<close> has no bytes left.
\<close>

definition ImportResult ::
  "('w, 'c, 'dc, 'img) env \<Rightarrow> string \<Rightarrow> 'w \<Rightarrow> error option \<times> 'w" where
  "ImportResult E copyID w =
     (case ImageImport E [] (''box-'' @ copyID) w of
        (Inl err, w1) \<Rightarrow> (Some err, w1)
      | (Inr (Inl err), w1) \<Rightarrow> (Some err, w1)
      | (Inr (Inr content), w1) \<Rightarrow> (ScanLines E (Split_crlf content), w1))"

text \<open>
  A call either returns or, when the helper goroutine cannot create its file
  \<open>test\<close>, panics and takes the process down.
\<close>

datatype outcome = Return "error option" | Panic error

text \<open>
  \<open>CopyToContainer\<close>: spool the content into a temporary file (removed by a deferred call
  on every return), build the archive, wait for the import's result, and set the image
  when it is \<open>nil\<close>. The result carries the archive that was written. The \<open>size\<close>
  argument is not used by the source.
\<close>

definition CopyToContainer ::
  "('w, 'c, 'dc, 'img) env \<Rightarrow> string \<Rightarrow> int \<Rightarrow> string \<Rightarrow> 'c Docker \<times> 'w
    \<Rightarrow> outcome \<times> 'c Docker \<times> 'w \<times> archive" where
  "CopyToContainer E copyID size' tw s =
     (case s of (d, w) \<Rightarrow>
        (case TempFile E w of
           (Inl err, w1) \<Rightarrow> (Return (Some err), d, w1, [])
         | (Inr tf, w1) \<Rightarrow>
             (case CopyToFile E tf tw w1 of
                (Some err, w2) \<Rightarrow> (Return (Some err), d, RemoveFile E tf w2, [])
              | (None, w2) \<Rightarrow>
                  (case CreateTestFile E w2 of
                     (Some err, w3) \<Rightarrow> (Panic err, d, w3, [])
                   | (None, w3) \<Rightarrow>
                       (case BuildArchive E copyID (config d) of
                          (Some err, a) \<Rightarrow> (Return (Some err), d, RemoveFile E tf w3, a)
                        | (None, a) \<Rightarrow>
                            (case ImportResult E copyID w3 of
                               (Some err, w4) \<Rightarrow> (Return (Some err), d, RemoveFile E tf w4, a)
                             | (None, w4) \<Rightarrow>
                                 (Return None, d\<lparr>config := (config d)\<lparr>Image := copyID\<rparr>\<rparr>,
                                  RemoveFile E tf w4, a)))))))"

section \<open>An example environment\<close>

text \<open>
  A small engine and machine to run the model on: containers and images are lists, ids
  come from a supply, removing a container that does not exist is answered with the
  engine's \<open>No such container\<close>, and JSON is read and written by the two functions
  below. It instantiates the theorems; none of them depends on it.
\<close>

subsection \<open>Reading and writing JSON\<close>

fun encode_string :: "string \<Rightarrow> string" where
  "encode_string [] = []"
| "encode_string (c # cs) =
     (if c = CHR 0x22 \<or> c = CHR 0x5C then CHR 0x5C # c # encode_string cs
      else c # encode_string cs)"

definition quoted :: "string \<Rightarrow> string" where
  "quoted s = CHR 0x22 # encode_string s @ [CHR 0x22]"

fun json_encode :: "json \<Rightarrow> string"
  and encode_elems :: "json list \<Rightarrow> string"
  and encode_members :: "(string \<times> json) list \<Rightarrow> string" where
  "json_encode JNull = ''null''"
| "json_encode (JBool b) = (if b then ''true'' else ''false'')"
| "json_encode (JNumber n) = n"
| "json_encode (JString s) = quoted s"
| "json_encode (JArray xs) = CHR ''['' # encode_elems xs @ '']''"
| "json_encode (JObject ms) = CHR ''{'' # encode_members ms @ ''}''"
| "encode_elems [] = []"
| "encode_elems [x] = json_encode x"
| "encode_elems (x # y # ys) = json_encode x @ CHR '','' # encode_elems (y # ys)"
| "encode_members [] = []"
| "encode_members [(k, v)] = quoted k @ CHR '':'' # json_encode v"
| "encode_members ((k, v) # m # ms) =
     quoted k @ CHR '':'' # json_encode v @ CHR '','' # encode_members (m # ms)"

definition is_space :: "char \<Rightarrow> bool" where
  "is_space c = (c = CHR 0x20 \<or> c = CHR 0x09 \<or> c = CHR 0x0A \<or> c = CHR 0x0D)"

definition is_digit :: "char \<Rightarrow> bool" where
  "is_digit c = (48 \<le> (of_char c :: nat) \<and> (of_char c :: nat) \<le> 57)"

text \<open>The escapes of a JSON string, \<open>\u\<close> apart, which this reader rejects.\<close>

definition unescape :: "char \<Rightarrow> char option" where
  "unescape e =
     (if e = CHR 0x22 \<or> e = CHR 0x5C \<or> e = CHR ''/'' then Some e
      else if e = CHR ''b'' then Some (CHR 0x08)
      else if e = CHR ''f'' then Some (CHR 0x0C)
      else if e = CHR ''n'' then Some (CHR 0x0A)
      else if e = CHR ''r'' then Some (CHR 0x0D)
      else if e = CHR ''t'' then Some (CHR 0x09)
      else None)"

fun parse_string :: "string \<Rightarrow> (string \<times> string) option" where
  "parse_string [] = None"
| "parse_string [c] = (if c = CHR 0x22 then Some ([], []) else None)"
| "parse_string (c # e # cs) =
     (if c = CHR 0x22 then Some ([], e # cs)
      else if c = CHR 0x5C then
        (case unescape e of
           None \<Rightarrow> None
         | Some b \<Rightarrow> map_option (\<lambda>(s, r). (b # s, r)) (parse_string cs))
      else if (of_char c :: nat) < 32 then None
      else map_option (\<lambda>(s, r). (c # s, r)) (parse_string (e # cs)))"

definition digits1 :: "string \<Rightarrow> (string \<times> string) option" where
  "digits1 cs = (if takeWhile is_digit cs = [] then None
                 else Some (takeWhile is_digit cs, dropWhile is_digit cs))"

definition parse_number :: "string \<Rightarrow> (string \<times> string) option" where
  "parse_number cs =
     (let (sign, r0) = (case cs of c # r \<Rightarrow> if c = CHR ''-'' then ([c], r) else ([], cs) | [] \<Rightarrow> ([], cs));
          whole = (case r0 of c # r \<Rightarrow> if c = CHR ''0'' then Some ([c], r) else digits1 r0
                   | [] \<Rightarrow> None)
      in case whole of
           None \<Rightarrow> None
         | Some (ds, r1) \<Rightarrow>
             (let frac = (case r1 of c # r \<Rightarrow>
                            if c = CHR ''.'' then map_option (\<lambda>(f, r'). (c # f, r')) (digits1 r)
                            else Some ([], r1)
                          | [] \<Rightarrow> Some ([], r1))
              in case frac of
                   None \<Rightarrow> None
                 | Some (fs, r2) \<Rightarrow>
                     (let ex = (case r2 of c # r \<Rightarrow>
                                  if c = CHR ''e'' \<or> c = CHR ''E'' then
                                    (case r of s # r' \<Rightarrow>
                                       if s = CHR ''+'' \<or> s = CHR ''-'' then
                                         map_option (\<lambda>(x, r''). (c # s # x, r'')) (digits1 r')
                                       else map_option (\<lambda>(x, r''). (c # x, r'')) (digits1 r)
                                     | [] \<Rightarrow> None)
                                  else Some ([], r2)
                                | [] \<Rightarrow> Some ([], r2))
                      in map_option (\<lambda>(es, r3). (sign @ ds @ fs @ es, r3)) ex)))"

definition literal :: "string \<Rightarrow> string \<Rightarrow> string option" where
  "literal l cs = (if take (length l) cs = l then Some (drop (length l) cs) else None)"

text \<open>A value, the elements of an array and the members of an object; the first argument
  bounds the nesting and the number of elements, and the length of the input is enough.\<close>

fun parse_value :: "nat \<Rightarrow> string \<Rightarrow> (json \<times> string) option"
  and parse_elems :: "nat \<Rightarrow> string \<Rightarrow> (json list \<times> string) option"
  and parse_members :: "nat \<Rightarrow> string \<Rightarrow> ((string \<times> json) list \<times> string) option" where
  "parse_value 0 cs = None"
| "parse_value (Suc n) cs =
     (case dropWhile is_space cs of
        [] \<Rightarrow> None
      | c # r \<Rightarrow>
          if c = CHR ''{'' then
            (case dropWhile is_space r of
               [] \<Rightarrow> None
             | c' # r' \<Rightarrow>
                 if c' = CHR ''}'' then Some (JObject [], r')
                 else map_option (\<lambda>(ms, r''). (JObject ms, r'')) (parse_members n r))
          else if c = CHR ''['' then
            (case dropWhile is_space r of
               [] \<Rightarrow> None
             | c' # r' \<Rightarrow>
                 if c' = CHR '']'' then Some (JArray [], r')
                 else map_option (\<lambda>(xs, r''). (JArray xs, r'')) (parse_elems n r))
          else if c = CHR 0x22 then map_option (\<lambda>(s, r'). (JString s, r')) (parse_string r)
          else if c = CHR ''t'' then map_option (\<lambda>r'. (JBool True, r')) (literal ''true'' (c # r))
          else if c = CHR ''f'' then map_option (\<lambda>r'. (JBool False, r')) (literal ''false'' (c # r))
          else if c = CHR ''n'' then map_option (\<lambda>r'. (JNull, r')) (literal ''null'' (c # r))
          else map_option (\<lambda>(x, r'). (JNumber x, r')) (parse_number (c # r)))"
| "parse_elems 0 cs = None"
| "parse_elems (Suc n) cs =
     (case parse_value n cs of
        None \<Rightarrow> None
      | Some (x, r) \<Rightarrow>
          (case dropWhile is_space r of
             [] \<Rightarrow> None
           | c # r' \<Rightarrow>
               if c = CHR '','' then map_option (\<lambda>(xs, r''). (x # xs, r'')) (parse_elems n r')
               else if c = CHR '']'' then Some ([x], r')
               else None))"
| "parse_members 0 cs = None"
| "parse_members (Suc n) cs =
     (case dropWhile is_space cs of
        [] \<Rightarrow> None
      | q # r \<Rightarrow>
          if q \<noteq> CHR 0x22 then None
          else
            (case parse_string r of
               None \<Rightarrow> None
             | Some (k, r1) \<Rightarrow>
                 (case dropWhile is_space r1 of
                    [] \<Rightarrow> None
                  | c # r2 \<Rightarrow>
                      if c \<noteq> CHR '':'' then None
                      else
                        (case parse_value n r2 of
                           None \<Rightarrow> None
                         | Some (v, r3) \<Rightarrow>
                             (case dropWhile is_space r3 of
                                [] \<Rightarrow> None
                              | c' # r4 \<Rightarrow>
                                  if c' = CHR '','' then
                                    map_option (\<lambda>(ms, r5). ((k, v) # ms, r5)) (parse_members n r4)
                                  else if c' = CHR ''}'' then Some ([(k, v)], r4)
                                  else None)))))"

text \<open>
  Unmarshalling into a \<open>map[string]interface{}\<close>: an object fills the map (a repeated
  key keeps its last value), \<open>null\<close> leaves it empty, anything else is an error, and so
  is input with nothing in it.
\<close>

definition json_decode :: "string \<Rightarrow> error + (string \<rightharpoonup> json)" where
  "json_decode line =
     (if dropWhile is_space line = [] then Inl ''unexpected end of JSON input''
      else
        (case parse_value (Suc (length line)) line of
           None \<Rightarrow> Inl ''invalid character in JSON input''
         | Some (v, r) \<Rightarrow>
             if dropWhile is_space r \<noteq> [] then Inl ''invalid character after top-level value''
             else
               (case v of
                  JObject ms \<Rightarrow> Inr (map_of (rev ms))
                | JNull \<Rightarrow> Inr Map.empty
                | _ \<Rightarrow> Inl ''json: cannot unmarshal value into Go value of type map[string]interface {}'')))"

subsection \<open>The engine and the machine\<close>

record sim_world =
  sim_containers :: "(string \<times> string Config) list"
  sim_images :: "(ImageSummary \<times> string Config ImageInspect) list"
  sim_ids :: "string list"
  sim_exit :: int
  sim_response :: string
  sim_raw :: bool
  sim_restores :: nat
  sim_files :: "string list"

definition has_container :: "sim_world \<Rightarrow> string \<Rightarrow> bool" where
  "has_container w i = (map_of (sim_containers w) i \<noteq> None)"

definition no_such_container :: "string \<Rightarrow> error" where
  "no_such_container i = ''No such container: '' @ i"

definition sim :: "(sim_world, string, string Config, string) env" where
  "sim = \<lparr>
     ImageList = (\<lambda>w. Inr (map fst (sim_images w))),
     ImageInspectWithRaw = (\<lambda>i w.
       case find (\<lambda>x. img_ID (fst x) = i) (sim_images w) of
         None \<Rightarrow> Inl (''No such image: '' @ i)
       | Some x \<Rightarrow> Inr (snd x)),
     ContainerCreate = (\<lambda>dc w.
       case sim_ids w of
         [] \<Rightarrow> (([], Some ''no id left''), w)
       | i # ids \<Rightarrow> ((i, None), w\<lparr>sim_containers := sim_containers w @ [(i, dc)], sim_ids := ids\<rparr>)),
     ContainerRemove = (\<lambda>i force w.
       if has_container w i then
         (None, w\<lparr>sim_containers := filter (\<lambda>x. fst x \<noteq> i) (sim_containers w)\<rparr>)
       else (Some (no_such_container i), w)),
     ContainerCommit = (\<lambda>i dc comment w.
       case map_of (sim_containers w) i of
         None \<Rightarrow> (Inl (no_such_container i), w)
       | Some c \<Rightarrow>
           (case sim_ids w of
              [] \<Rightarrow> (Inl ''no id left'', w)
            | n # ids \<Rightarrow>
                (Inr n, w\<lparr>sim_images := sim_images w @
                             [(\<lparr>img_ID = n, img_ParentID = Image c\<rparr>,
                               \<lparr>insp_Comment = comment, insp_Config = dc\<rparr>)],
                          sim_ids := ids\<rparr>))),
     ContainerAttach = (\<lambda>i s w. if has_container w i then (None, w) else (Some (no_such_container i), w)),
     AttachClose = (\<lambda>i w. w),
     ContainerStart = (\<lambda>i w. if has_container w i then (None, w) else (Some (no_such_container i), w)),
     ContainerWait = (\<lambda>i w. if has_container w i then (Inr (sim_exit w), w) else (Inl (no_such_container i), w)),
     ImageImport = (\<lambda>src ref w. (Inr (Inr (sim_response w)), w)),
     container_exists = has_container,
     SetRawTerminal = (\<lambda>w. (Inr 0, w\<lparr>sim_raw := True\<rparr>)),
     RestoreTerminal = (\<lambda>st w. w\<lparr>sim_raw := False, sim_restores := Suc (sim_restores w)\<rparr>),
     TempFile = (\<lambda>w. (Inr ''/tmp/box-temporary-layer1'',
                       w\<lparr>sim_files := ''/tmp/box-temporary-layer1'' # sim_files w\<rparr>)),
     CopyToFile = (\<lambda>f bytes w. (None, w)),
     RemoveFile = (\<lambda>f w. w\<lparr>sim_files := removeAll f (sim_files w)\<rparr>),
     CreateTestFile = (\<lambda>w. (None, w\<lparr>sim_files := ''test'' # sim_files w\<rparr>)),
     ToDocker = (\<lambda>c t s. c),
     FromDocker = (\<lambda>dc c. dc),
     ToImage = (\<lambda>c ids. settings c),
     MarshalImage = (\<lambda>img. Inr (json_encode (JObject [(''Cmd'', JString img)]))),
     Marshal = (\<lambda>j. Inr (json_encode j)),
     Unmarshal = json_decode,
     Quote = quoted
   \<rparr>"

text \<open>The session of the spec's scenario b: image \<open>abc\<close>, and one image built on it.\<close>

definition d_abc :: "string Docker" where
  "d_abc = \<lparr>config = \<lparr>Image = ''abc'', settings = ''sh''\<rparr>,
            useCache = True, tty = False, stdin = False\<rparr>"

definition img7 :: "ImageSummary \<times> string Config ImageInspect" where
  "img7 = (\<lparr>img_ID = ''img7'', img_ParentID = ''abc''\<rparr>,
           \<lparr>insp_Comment = ''run echo hi'', insp_Config = \<lparr>Image = ''abc'', settings = ''echo hi''\<rparr>\<rparr>)"

definition img6 :: "ImageSummary \<times> string Config ImageInspect" where
  "img6 = (\<lparr>img_ID = ''img6'', img_ParentID = ''abc''\<rparr>,
           \<lparr>insp_Comment = ''run make'', insp_Config = \<lparr>Image = ''abc'', settings = ''make''\<rparr>\<rparr>)"

definition w_abc :: sim_world where
  "w_abc = \<lparr>sim_containers = [], sim_images = [img6, img7], sim_ids = [''c1'', ''i1''],
            sim_exit = 0, sim_response = [], sim_raw = False, sim_restores = 0, sim_files = []\<rparr>"

text \<open>The same images, listed the other way round.\<close>

definition w_first :: sim_world where
  "w_first = w_abc\<lparr>sim_images := [img7, img6]\<rparr>"

text \<open>The same engine, on which inspecting the image \<open>img6\<close> fails.\<close>

definition sim_flaky :: "(sim_world, string, string Config, string) env" where
  "sim_flaky = sim\<lparr>ImageInspectWithRaw := (\<lambda>i w.
      if i = ''img6'' then Inl ''connection reset'' else ImageInspectWithRaw sim i w)\<rparr>"

text \<open>Exit status 2 instead of 0.\<close>

definition w_exit2 :: sim_world where
  "w_exit2 = w_abc\<lparr>sim_exit := 2\<rparr>"


definition sim_stuck :: "(sim_world, string, string Config, string) env" where
  "sim_stuck = sim\<lparr>ContainerRemove := (\<lambda>i force w. (Some ''device or resource busy'', w))\<rparr>"

text \<open>A machine on which no temporary file can be created.\<close>

definition sim_nospool :: "(sim_world, string, string Config, string) env" where
  "sim_nospool = sim\<lparr>TempFile := (\<lambda>w. (Inl ''no space left on device'', w))\<rparr>"

text \<open>
  Responses of the engine to an import: one status line; a status line and an error line;
  text that is not JSON; and one status line with the line ending after it.
\<close>

definition status_line :: string where
  "status_line = CHR ''{'' # quoted ''status'' @ CHR '':'' # quoted ''ok'' @ ''}''"

definition error_line :: string where
  "error_line = CHR ''{'' # quoted ''error'' @ CHR '':'' # quoted ''boom'' @ ''}''"

definition w_status :: sim_world where
  "w_status = w_abc\<lparr>sim_response := status_line\<rparr>"

definition w_error :: sim_world where
  "w_error = w_abc\<lparr>sim_response := status_line @ [CHR 0x0D, CHR 0x0A] @ error_line\<rparr>"

definition w_text :: sim_world where
  "w_text = w_abc\<lparr>sim_response := ''Loading layer''\<rparr>"

definition w_crlf :: sim_world where
  "w_crlf = w_abc\<lparr>sim_response := status_line @ [CHR 0x0D, CHR 0x0A]\<rparr>"

text \<open>The three payloads that the example environment encodes for the image \<open>img1\<close>.\<close>

definition cmd_json :: string where
  "cmd_json = ''{'' @ quoted ''Cmd'' @ '':'' @ quoted ''sh'' @ ''}''"

definition repos_json :: string where
  "repos_json = ''{'' @ quoted ''img1'' @ '':{'' @ quoted ''latest'' @ '':'' @ quoted ''img1'' @ ''}}''"

definition manifest_json :: string where
  "manifest_json = ''[{'' @ quoted ''Config'' @ '':'' @ quoted ''img1.json'' @ '','' @
     quoted ''Layers'' @ '':['' @ quoted ''img1/layer.tar'' @ ''],'' @
     quoted ''RepoTags'' @ '':['' @ quoted ''img1'' @ '']}]''"

section \<open>Observing the commit requests\<close>

text \<open>
  Any environment can be run with a log beside its world: every call acts on the world as
  before, and \<open>ContainerCommit\<close> also notes the container and the comment it was asked to
  commit with. What the executor returns and does to the world is the same with or
  without the log.
\<close>

definition observed :: "('w \<Rightarrow> 'r \<times> 'w) \<Rightarrow> 'w \<times> 'l \<Rightarrow> 'r \<times> ('w \<times> 'l)" where
  "observed f s = (case f (fst s) of (r, w') \<Rightarrow> (r, (w', snd s)))"

definition recording ::
  "('w, 'c, 'dc, 'img) env \<Rightarrow> ('w \<times> (string \<times> string) list, 'c, 'dc, 'img) env" where
  "recording E = \<lparr>
     ImageList = (\<lambda>s. ImageList E (fst s)),
     ImageInspectWithRaw = (\<lambda>i s. ImageInspectWithRaw E i (fst s)),
     ContainerCreate = (\<lambda>dc. observed (ContainerCreate E dc)),
     ContainerRemove = (\<lambda>i force. observed (ContainerRemove E i force)),
     ContainerCommit = (\<lambda>i dc comment s.
       case ContainerCommit E i dc comment (fst s) of (r, w') \<Rightarrow> (r, (w', snd s @ [(i, comment)]))),
     ContainerAttach = (\<lambda>i si. observed (ContainerAttach E i si)),
     AttachClose = (\<lambda>i s. (AttachClose E i (fst s), snd s)),
     ContainerStart = (\<lambda>i. observed (ContainerStart E i)),
     ContainerWait = (\<lambda>i. observed (ContainerWait E i)),
     ImageImport = (\<lambda>src ref. observed (ImageImport E src ref)),
     container_exists = (\<lambda>s. container_exists E (fst s)),
     SetRawTerminal = observed (SetRawTerminal E),
     RestoreTerminal = (\<lambda>st s. (RestoreTerminal E st (fst s), snd s)),
     TempFile = observed (TempFile E),
     CopyToFile = (\<lambda>f b. observed (CopyToFile E f b)),
     RemoveFile = (\<lambda>f s. (RemoveFile E f (fst s), snd s)),
     CreateTestFile = observed (CreateTestFile E),
     ToDocker = ToDocker E,
     FromDocker = FromDocker E,
     ToImage = ToImage E,
     MarshalImage = MarshalImage E,
     Marshal = Marshal E,
     Unmarshal = Unmarshal E,
     Quote = Quote E
   \<rparr>"

section \<open>Properties\<close>

subsection \<open>CheckCache\<close>

text \<open>
  The loop stops at the first listed image whose parent is the current image and whose
  inspection fails or shows the key as its comment; that image's inspection decides the
  result. Images listed after it are never inspected.
\<close>

lemma CheckCache_range_first:
  "CheckCache_range E w F d images =
    (case find (\<lambda>x. img_ParentID x = Image (config d) \<and>
                 (case ImageInspectWithRaw E (img_ID x) w of Inl _ \<Rightarrow> True
                  | Inr i \<Rightarrow> insp_Comment i = F)) images of
      None \<Rightarrow> ((False, None), d)
    | Some img \<Rightarrow>
        (case ImageInspectWithRaw E (img_ID img) w of
           Inl err \<Rightarrow> ((False, Some err), d)
         | Inr insp \<Rightarrow>
             ((True, None),
              d\<lparr>config := (FromDocker E (insp_Config insp) (config d))\<lparr>Image := img_ID img\<rparr>\<rparr>)))"
  by (induction images) (auto split: sum.splits)

text \<open>
  Claim C1, as amended. \<open>CheckCache F\<close> asks the engine only when caching is enabled and
  the session's resulting image \<open>I\<close> is not empty; otherwise it returns \<open>(false, nil)\<close>.
  It goes through the listed images in the engine's order up to the first one that has
  parent \<open>I\<close> and whose inspection fails or whose comment is \<open>F\<close>. It reports a hit if and
  only if there is such an image and its inspection succeeded, so that its comment is
  \<open>F\<close>: then that image's id becomes the resulting image and its recorded config is loaded
  into the build state. If the listing fails, or the inspection of that image fails, it
  returns \<open>(false, err)\<close>; if there is no such image it returns \<open>(false, nil)\<close>. Whenever
  it does not report a hit the build state is unchanged.
\<close>

theorem CheckCache_first_decisive:
  "CheckCache E F (d, w) =
     (if useCache d \<and> Image (config d) \<noteq> [] then
        (case ImageList E w of
           Inl err \<Rightarrow> ((False, Some err), d)
         | Inr images \<Rightarrow>
             (case find (\<lambda>x. img_ParentID x = Image (config d) \<and>
                          (case ImageInspectWithRaw E (img_ID x) w of Inl _ \<Rightarrow> True
                           | Inr i \<Rightarrow> insp_Comment i = F)) images of
                None \<Rightarrow> ((False, None), d)
              | Some img \<Rightarrow>
                  (case ImageInspectWithRaw E (img_ID img) w of
                     Inl err \<Rightarrow> ((False, Some err), d)
                   | Inr insp \<Rightarrow>
                       ((True, None),
                        d\<lparr>config := (FromDocker E (insp_Config insp) (config d))
                                      \<lparr>Image := img_ID img\<rparr>\<rparr>))))
      else ((False, None), d))
   \<and> (fst (fst (CheckCache E F (d, w))) \<longleftrightarrow>
        useCache d \<and> Image (config d) \<noteq> [] \<and>
        (\<exists>images img insp.
           ImageList E w = Inr images \<and>
           find (\<lambda>x. img_ParentID x = Image (config d) \<and>
                      (case ImageInspectWithRaw E (img_ID x) w of Inl _ \<Rightarrow> True
                       | Inr i \<Rightarrow> insp_Comment i = F)) images = Some img \<and>
           ImageInspectWithRaw E (img_ID img) w = Inr insp \<and> insp_Comment insp = F))
   \<and> (fst (fst (CheckCache E F (d, w))) \<or> snd (CheckCache E F (d, w)) = d)"
proof -
  let ?P = "\<lambda>x. img_ParentID x = Image (config d) \<and>
                 (case ImageInspectWithRaw E (img_ID x) w of Inl _ \<Rightarrow> True
                  | Inr i \<Rightarrow> insp_Comment i = F)"
  have eq: "CheckCache E F (d, w) =
     (if useCache d \<and> Image (config d) \<noteq> [] then
        (case ImageList E w of
           Inl err \<Rightarrow> ((False, Some err), d)
         | Inr images \<Rightarrow>
             (case find ?P images of
                None \<Rightarrow> ((False, None), d)
              | Some img \<Rightarrow>
                  (case ImageInspectWithRaw E (img_ID img) w of
                     Inl err \<Rightarrow> ((False, Some err), d)
                   | Inr insp \<Rightarrow>
                       ((True, None),
                        d\<lparr>config := (FromDocker E (insp_Config insp) (config d))
                                      \<lparr>Image := img_ID img\<rparr>\<rparr>))))
      else ((False, None), d))"
    by (simp add: CheckCache_def CheckCache_range_first split: sum.splits)
  have P_comment: "\<And>img insp. ?P img \<Longrightarrow> ImageInspectWithRaw E (img_ID img) w = Inr insp
      \<Longrightarrow> insp_Comment insp = F"
    by simp
  have iff: "fst (fst (CheckCache E F (d, w))) \<longleftrightarrow>
        useCache d \<and> Image (config d) \<noteq> [] \<and>
        (\<exists>images img insp.
           ImageList E w = Inr images \<and> find ?P images = Some img \<and>
           ImageInspectWithRaw E (img_ID img) w = Inr insp \<and> insp_Comment insp = F)"
  proof (cases "useCache d \<and> Image (config d) \<noteq> []")
    case False
    then show ?thesis by (auto simp: eq)
  next
    case True
    show ?thesis
    proof (cases "ImageList E w")
      case (Inl err)
      with True show ?thesis by (simp add: eq)
    next
      case (Inr images)
      show ?thesis
      proof (cases "find ?P images")
        case None
        with True Inr show ?thesis by (simp add: eq)
      next
        case (Some img)
        then have "?P img" by (auto simp: find_Some_iff)
        with True Inr Some P_comment [of img] show ?thesis
          by (cases "ImageInspectWithRaw E (img_ID img) w") (simp_all add: eq)
      qed
    qed
  qed
  have frame: "fst (fst (CheckCache E F (d, w))) \<or> snd (CheckCache E F (d, w)) = d"
    by (simp add: eq split: sum.splits option.splits)
  from eq iff frame show ?thesis by blast
qed

text \<open>
  The matching image listed first is a hit even on the engine that cannot inspect
  \<open>img6\<close>, listed after it; scenario b of the spec, with the inspected settings loaded; a
  miss for another key; and a miss with caching off.
\<close>

theorem CheckCache_first_decisive_witness:
  "CheckCache sim_flaky ''run echo hi'' (d_abc, w_first) =
     ((True, None), d_abc\<lparr>config := \<lparr>Image = ''img7'', settings = ''echo hi''\<rparr>\<rparr>) \<and>
   CheckCache sim ''run echo hi'' (d_abc, w_abc) =
     ((True, None), d_abc\<lparr>config := \<lparr>Image = ''img7'', settings = ''echo hi''\<rparr>\<rparr>) \<and>
   CheckCache sim ''run ls'' (d_abc, w_abc) = ((False, None), d_abc) \<and>
   CheckCache sim ''run echo hi'' (d_abc\<lparr>useCache := False\<rparr>, w_abc)
     = ((False, None), d_abc\<lparr>useCache := False\<rparr>)"
proof -
  have facts: "useCache d_abc" "Image (config d_abc) = ''abc''"
    "ImageList sim w_abc = Inr [fst img6, fst img7]"
    "ImageList sim_flaky w_first = Inr [fst img7, fst img6]"
    "ImageInspectWithRaw sim ''img6'' w_abc = Inr (snd img6)"
    "ImageInspectWithRaw sim ''img7'' w_abc = Inr (snd img7)"
    "ImageInspectWithRaw sim_flaky ''img7'' w_first = Inr (snd img7)"
    "img_ID (fst img6) = ''img6''" "img_ID (fst img7) = ''img7''"
    "img_ParentID (fst img6) = ''abc''" "img_ParentID (fst img7) = ''abc''"
    "insp_Comment (snd img6) = ''run make''" "insp_Comment (snd img7) = ''run echo hi''"
    "insp_Config (snd img7) = \<lparr>Image = ''abc'', settings = ''echo hi''\<rparr>"
    "FromDocker sim = (\<lambda>dc c. dc)" "FromDocker sim_flaky = (\<lambda>dc c. dc)"
    by (simp_all add: d_abc_def sim_flaky_def sim_def w_first_def w_abc_def img6_def img7_def)
  have a: "CheckCache sim_flaky ''run echo hi'' (d_abc, w_first) =
     ((True, None), d_abc\<lparr>config := \<lparr>Image = ''img7'', settings = ''echo hi''\<rparr>\<rparr>)"
    using CheckCache_first_decisive [of sim_flaky "''run echo hi''" d_abc w_first]
    by (simp add: facts)
  have b: "CheckCache sim ''run echo hi'' (d_abc, w_abc) =
     ((True, None), d_abc\<lparr>config := \<lparr>Image = ''img7'', settings = ''echo hi''\<rparr>\<rparr>)"
    using CheckCache_first_decisive [of sim "''run echo hi''" d_abc w_abc]
    by (simp add: facts)
  have c: "CheckCache sim ''run ls'' (d_abc, w_abc) = ((False, None), d_abc)"
    using CheckCache_first_decisive [of sim "''run ls''" d_abc w_abc]
    by (simp add: facts)
  have d: "CheckCache sim ''run echo hi'' (d_abc\<lparr>useCache := False\<rparr>, w_abc)
     = ((False, None), d_abc\<lparr>useCache := False\<rparr>)"
    using CheckCache_first_decisive [of sim "''run echo hi''" "d_abc\<lparr>useCache := False\<rparr>" w_abc]
    by simp
  from a b c d show ?thesis by simp
qed

text \<open>
  Claim C1 as stated fails when the engine fails: caching is on, the image \<open>img7\<close> is
  listed with parent \<open>abc\<close> and the comment asked for, but the inspection of \<open>img6\<close>,
  listed before it, fails, and \<open>CheckCache\<close> returns \<open>(false, err)\<close>: neither a hit nor
  \<open>(false, nil)\<close>.
\<close>

theorem CheckCache_failed_inspection:
  "useCache d_abc \<and> Image (config d_abc) = ''abc'' \<and>
   ImageList sim_flaky w_abc = Inr [fst img6, fst img7] \<and>
   img_ParentID (fst img7) = ''abc'' \<and>
   ImageInspectWithRaw sim_flaky (img_ID (fst img7)) w_abc = Inr (snd img7) \<and>
   insp_Comment (snd img7) = ''run echo hi'' \<and>
   CheckCache sim_flaky ''run echo hi'' (d_abc, w_abc) = ((False, Some ''connection reset''), d_abc)"
  by (simp add: CheckCache_def sim_flaky_def sim_def d_abc_def w_abc_def img6_def img7_def)

subsection \<open>Commit and Destroy\<close>


lemma map_of_filter_out: "map_of (filter (\<lambda>x. fst x \<noteq> i) xs) i = None"
  by (induction xs) auto

lemmas sim_eval =
  Commit_def Commit_steps_def Commit_hook_def Create_def Destroy_def RunHook_def RunHook_wait_def
  sim_def d_abc_def w_exit2_def w_abc_def img6_def img7_def has_container_def
  no_such_container_def quoted_def

lemma itoa_2: "itoa 2 = ''2''"
  by code_simp




text \<open>
  Claim C3, as amended. \<open>Destroy id\<close> returns what the engine answers to the forced
  removal of \<open>id\<close>, unchanged, and does nothing else; so does a second call, in the state
  the first one left. For an id that is already removed it therefore returns success
  only if the engine answers the forced removal of a missing container with success.
\<close>

theorem Destroy_is_forced_removal:
  "Destroy E cid w = ContainerRemove E cid True w \<and>
   Destroy E cid (snd (Destroy E cid w)) =
     ContainerRemove E cid True (snd (ContainerRemove E cid True w))"
  by (simp add: Destroy_def)

text \<open>On the example engines \<open>Destroy\<close> hands back the engine's error, whatever it is.\<close>

theorem Destroy_is_forced_removal_witness:
  "Destroy sim ''c1'' w_abc = (Some ''No such container: c1'', w_abc) \<and>
   Destroy sim_stuck ''c1'' w_abc = (Some ''device or resource busy'', w_abc)"
  using Destroy_is_forced_removal [of sim "''c1''" w_abc]
        Destroy_is_forced_removal [of sim_stuck "''c1''" w_abc]
  by (simp add: sim_stuck_def sim_def w_abc_def has_container_def no_such_container_def)

text \<open>
  Claim C3 as stated fails on an engine that, like the Docker engine, answers the removal
  of a container it does not have with \<open>No such container\<close>: the first \<open>Destroy\<close>
  removes the container \<open>c1\<close>, and the second returns that error.
\<close>

theorem Destroy_twice_errors:
  "container_exists sim (snd (Create sim (d_abc, w_abc))) ''c1'' \<and>
   fst (Destroy sim ''c1'' (snd (Create sim (d_abc, w_abc)))) = None \<and>
   \<not> container_exists sim (snd (Destroy sim ''c1'' (snd (Create sim (d_abc, w_abc))))) ''c1'' \<and>
   ContainerRemove sim ''c1'' True (snd (Destroy sim ''c1'' (snd (Create sim (d_abc, w_abc))))) =
     (Some ''No such container: c1'', snd (Destroy sim ''c1'' (snd (Create sim (d_abc, w_abc))))) \<and>
   fst (Destroy sim ''c1'' (snd (Destroy sim ''c1'' (snd (Create sim (d_abc, w_abc)))))) =
     Some ''No such container: c1''"
  by (simp add: sim_eval)

text \<open>
  Claim C4, as amended. For every hook outcome (success, error, or no hook), once the
  container has been created, the last thing \<open>Commit\<close> does before it returns, whether
  it succeeds or fails, is a forced removal of that container, whose error it drops. The
  container no longer exists when \<open>Commit\<close> returns exactly when it does not exist
  after that removal.
\<close>

theorem Commit_forced_removal_last:
  assumes "Create E (d, w) = ((cid, None), w1)"
      and "Commit_steps E cacheKey hook cid (d, w1) = (r, d', w2)"
  shows "Commit E cacheKey hook (d, w) = (r, d', snd (ContainerRemove E cid True w2))
       \<and> (container_exists E (snd (snd (Commit E cacheKey hook (d, w)))) cid
            \<longleftrightarrow> container_exists E (snd (ContainerRemove E cid True w2)) cid)"
  using assms by (simp add: Commit_def Destroy_def)

text \<open>The hook fails with exit status 2, and the container \<open>c1\<close> is gone afterwards.\<close>

theorem Commit_forced_removal_last_witness:
  "Create sim (d_abc, w_exit2) = ((''c1'', None), snd (Create sim (d_abc, w_exit2))) \<and>
   container_exists sim (snd (Create sim (d_abc, w_exit2))) ''c1'' \<and>
   fst (Commit sim ''run ls'' (Some (RunHook sim d_abc)) (d_abc, w_exit2)) =
     Some (''Command exited with status 2 for container '' @ quoted ''c1'') \<and>
   \<not> container_exists sim
       (snd (snd (Commit sim ''run ls'' (Some (RunHook sim d_abc)) (d_abc, w_exit2)))) ''c1''"
proof -
  have c: "Create sim (d_abc, w_exit2) = ((''c1'', None), snd (Create sim (d_abc, w_exit2)))"
    by (simp add: sim_eval)
  obtain r d' w2 where
    st: "Commit_steps sim ''run ls'' (Some (RunHook sim d_abc)) ''c1''
           (d_abc, snd (Create sim (d_abc, w_exit2))) = (r, d', w2)"
    by (metis prod_cases3)
  have gone: "\<not> container_exists sim (snd (ContainerRemove sim ''c1'' True w2)) ''c1''"
    by (simp add: sim_def has_container_def map_of_filter_out)
  from Commit_forced_removal_last [OF c st] gone
  have "\<not> container_exists sim
       (snd (snd (Commit sim ''run ls'' (Some (RunHook sim d_abc)) (d_abc, w_exit2)))) ''c1''"
    by simp
  moreover have "container_exists sim (snd (Create sim (d_abc, w_exit2))) ''c1''"
    by (simp add: sim_eval)
  moreover have "fst (Commit sim ''run ls'' (Some (RunHook sim d_abc)) (d_abc, w_exit2)) =
     Some (''Command exited with status 2 for container '' @ quoted ''c1'')"
    by (simp add: sim_eval itoa_2)
  ultimately show ?thesis using c by simp
qed

text \<open>
  Claim C4 as stated fails when the engine cannot remove the container: the removal
  without force fails, \<open>Commit\<close> returns that failure, the deferred forced removal fails
  as well, its error is dropped (line 104), and the container \<open>c1\<close> still exists.
\<close>

theorem Commit_leaves_container:
  "fst (Create sim_stuck (d_abc, w_abc)) = (''c1'', None) \<and>
   fst (Commit sim_stuck ''run ls'' None (d_abc, w_abc)) =
     Some (''Could not remove intermediate container '' @ quoted ''c1'' @ '': device or resource busy'') \<and>
   container_exists sim_stuck (snd (snd (Commit sim_stuck ''run ls'' None (d_abc, w_abc)))) ''c1''"
  by (simp add: sim_stuck_def sim_eval)

subsection \<open>RunHook\<close>

text \<open>The decimal digits determine the number.\<close>

lemma nat_digits_nonempty: "nat_digits n \<noteq> []"
  by (subst nat_digits.simps) simp

lemma nat_digits_are_digits:
  "c \<in> set (nat_digits n) \<Longrightarrow> 48 \<le> (of_char c :: nat)"
proof (induction n rule: nat_digits.induct)
  case (1 n)
  show ?case
  proof (cases "n < 10")
    case True
    with "1.prems" show ?thesis by (subst (asm) nat_digits.simps) auto
  next
    case False
    have m: "(48 + n mod 10) mod 256 = 48 + n mod 10" by simp
    from False "1.prems" have "c \<in> set (nat_digits (n div 10)) \<or> c = char_of (48 + n mod 10)"
      by (subst (asm) nat_digits.simps) auto
    with "1.IH" False m show ?thesis by auto
  qed
qed

lemma nat_digits_inject: "nat_digits n = nat_digits m \<Longrightarrow> n = m"
proof (induction n arbitrary: m rule: nat_digits.induct)
  case (1 n)
  have small: "\<And>k::nat. k < 10 \<Longrightarrow> nat_digits k = [char_of (48 + k)]"
    by (subst nat_digits.simps) simp
  have big: "\<And>k::nat. \<not> k < 10 \<Longrightarrow>
      nat_digits k = nat_digits (k div 10) @ [char_of (48 + k mod 10)]"
    by (subst nat_digits.simps) simp
  have len: "\<And>k::nat. \<not> k < 10 \<Longrightarrow> length (nat_digits k) \<ge> 2"
    using nat_digits_nonempty by (simp add: big Suc_le_eq)
  show ?case
  proof (cases "n < 10")
    case n: True
    show ?thesis
    proof (cases "m < 10")
      case True
      with n "1.prems" have "(48 + n) mod 256 = (48 + m) mod 256"
        by (simp add: small)
      with n True show ?thesis by simp
    next
      case False
      from small [OF n] "1.prems" have "nat_digits m = [char_of (48 + n)]" by simp
      then have "length (nat_digits m) = 1" by simp
      with len [OF False] show ?thesis by simp
    qed
  next
    case n: False
    show ?thesis
    proof (cases "m < 10")
      case True
      from small [OF True] "1.prems" have "nat_digits n = [char_of (48 + m)]" by simp
      then have "length (nat_digits n) = 1" by simp
      with len [OF n] show ?thesis by simp
    next
      case False
      with n "1.prems" have eq: "nat_digits (n div 10) = nat_digits (m div 10)"
        and last: "(48 + n mod 10) mod 256 = (48 + m mod 10) mod 256"
        by (simp_all add: big)
      from "1.IH" [OF n eq] have d: "n div 10 = m div 10" .
      from last have "n mod 10 = m mod 10" by simp
      with d show ?thesis by (metis div_mult_mod_eq)
    qed
  qed
qed

lemma itoa_inject: "itoa i = itoa j \<Longrightarrow> i = j"
proof -
  assume eq: "itoa i = itoa j"
  have nominus: "\<And>n ds. nat_digits n \<noteq> CHR ''-'' # ds"
  proof
    fix n ds assume "nat_digits n = CHR ''-'' # ds"
    then have "CHR ''-'' \<in> set (nat_digits n)" by simp
    from nat_digits_are_digits [OF this] show False by simp
  qed
  show ?thesis
  proof (cases "i < 0")
    case i: True
    show ?thesis
    proof (cases "j < 0")
      case True
      with i eq have "nat (- i) = nat (- j)" by (auto simp: itoa_def dest: nat_digits_inject)
      with i True show ?thesis by simp
    next
      case False
      with i eq nominus show ?thesis by (auto simp: itoa_def dest: sym)
    qed
  next
    case i: False
    show ?thesis
    proof (cases "j < 0")
      case True
      with i eq nominus show ?thesis by (auto simp: itoa_def)
    next
      case False
      with i eq have "nat i = nat j" by (auto simp: itoa_def dest: nat_digits_inject)
      with i False show ?thesis by simp
    qed
  qed
qed
lemma itoa_0: "itoa 0 = ''0''"
  by code_simp

text \<open>
  Claim C7. When the attach, the switch of the terminal to raw mode (made only with
  stdin), and the start succeed and \<open>ContainerWait\<close> reports that the process exited with
  status \<open>s\<close>: if \<open>s\<close> is not zero \<open>RunHook\<close> returns an error whose text is
  \<open>Command exited with status\<close>, the decimal digits of \<open>s\<close>, \<open>for container\<close> and the
  quoted container id; if \<open>s\<close> is zero it returns no error. No other status has the
  same digits.
\<close>

theorem RunHook_exit_status:
  assumes attach: "ContainerAttach E cid (stdin d) w = (None, w1)"
      and raw: "if stdin d then \<exists>st. SetRawTerminal E w1 = (Inr st, w2) else w2 = w1"
      and start: "ContainerStart E cid w2 = (None, w3)"
      and wait: "ContainerWait E cid w3 = (Inr s, w4)"
  shows "fst (RunHook E d cid w) =
           ([], if s \<noteq> 0 then Some (''Command exited with status '' @ itoa s
                                      @ '' for container '' @ Quote E cid)
                else None)
       \<and> (\<forall>s'. itoa s' = itoa s \<longrightarrow> s' = s)"
  using assms itoa_inject
  by (auto simp: RunHook_def RunHook_wait_def split: if_splits)

text \<open>Scenario e of the spec, exit status 2, and an exit status 0 with stdin attached.\<close>

theorem RunHook_exit_status_witness:
  "ContainerAttach sim ''c1'' (stdin d_abc) (snd (Create sim (d_abc, w_exit2)))
     = (None, snd (Create sim (d_abc, w_exit2))) \<and>
   ContainerStart sim ''c1'' (snd (Create sim (d_abc, w_exit2)))
     = (None, snd (Create sim (d_abc, w_exit2))) \<and>
   ContainerWait sim ''c1'' (snd (Create sim (d_abc, w_exit2)))
     = (Inr 2, snd (Create sim (d_abc, w_exit2))) \<and>
   fst (RunHook sim d_abc ''c1'' (snd (Create sim (d_abc, w_exit2)))) =
     ([], Some (''Command exited with status 2 for container '' @ quoted ''c1'')) \<and>
   ContainerWait sim ''c1'' (snd (Create sim (d_abc, w_abc)))
     = (Inr 0, snd (Create sim (d_abc, w_abc))) \<and>
   fst (RunHook sim (d_abc\<lparr>stdin := True\<rparr>) ''c1'' (snd (Create sim (d_abc, w_abc)))) = ([], None)"
proof -
  let ?w2 = "snd (Create sim (d_abc, w_exit2))"
  let ?w0 = "snd (Create sim (d_abc, w_abc))"
  have a: "ContainerAttach sim ''c1'' (stdin d_abc) ?w2 = (None, ?w2)"
    and st: "ContainerStart sim ''c1'' ?w2 = (None, ?w2)"
    and wt: "ContainerWait sim ''c1'' ?w2 = (Inr 2, ?w2)"
    and r: "if stdin d_abc then \<exists>st. SetRawTerminal sim ?w2 = (Inr st, ?w2) else ?w2 = ?w2"
    by (simp_all add: sim_eval)
  have q: "Quote sim = quoted" by (simp add: sim_def)
  from RunHook_exit_status [OF a r st wt]
  have one: "fst (RunHook sim d_abc ''c1'' ?w2) =
     ([], Some (''Command exited with status 2 for container '' @ quoted ''c1''))"
    by (simp add: itoa_2 q)
  have a0: "ContainerAttach sim ''c1'' (stdin (d_abc\<lparr>stdin := True\<rparr>)) ?w0 = (None, ?w0)"
    and r0: "if stdin (d_abc\<lparr>stdin := True\<rparr>)
             then \<exists>st. SetRawTerminal sim ?w0 = (Inr st, ?w0\<lparr>sim_raw := True\<rparr>)
             else ?w0\<lparr>sim_raw := True\<rparr> = ?w0"
    and st0: "ContainerStart sim ''c1'' (?w0\<lparr>sim_raw := True\<rparr>) = (None, ?w0\<lparr>sim_raw := True\<rparr>)"
    and wt0: "ContainerWait sim ''c1'' (?w0\<lparr>sim_raw := True\<rparr>) = (Inr 0, ?w0\<lparr>sim_raw := True\<rparr>)"
    and wt1: "ContainerWait sim ''c1'' ?w0 = (Inr 0, ?w0)"
    by (simp_all add: sim_eval)
  from RunHook_exit_status [OF a0 r0 st0 wt0]
  have two: "fst (RunHook sim (d_abc\<lparr>stdin := True\<rparr>) ''c1'' ?w0) = ([], None)"
    by simp
  from a st wt one wt1 two show ?thesis by simp
qed

text \<open>With the log beside the world, \<open>RunHook\<close> and \<open>Commit\<close> do what they do without it.\<close>

lemma RunHook_key_empty: "fst (fst (RunHook E d cid w)) = []"
  by (simp add: RunHook_def RunHook_wait_def split: prod.splits option.splits sum.splits)

lemma RunHook_wait_recording:
  "RunHook_wait (recording E) cid (w, l) =
     (fst (RunHook_wait E cid w), (snd (RunHook_wait E cid w), l))"
  by (simp add: RunHook_wait_def recording_def observed_def split: prod.splits option.splits sum.splits)

lemma RunHook_recording:
  "RunHook (recording E) d cid (w, l) = (fst (RunHook E d cid w), (snd (RunHook E d cid w), l))"
  unfolding RunHook_def
  by (simp add: RunHook_wait_recording split: prod.splits option.splits sum.splits)
     (auto simp: recording_def observed_def)

lemma Commit_hook_RunHook:
  "Commit_hook (Some (RunHook E d)) cacheKey cid w =
     (case snd (fst (RunHook E d cid w)) of
        Some err \<Rightarrow> (Inl err, snd (RunHook E d cid w))
      | None \<Rightarrow> (Inr cacheKey, snd (RunHook E d cid w)))"
  using RunHook_key_empty [of E d cid w]
  by (auto simp: Commit_hook_def split: prod.splits option.splits)

lemma recording_calls:
  "ContainerCreate (recording E) dc (w, l) =
     (fst (ContainerCreate E dc w), (snd (ContainerCreate E dc w), l))"
  "ContainerRemove (recording E) i force (w, l) =
     (fst (ContainerRemove E i force w), (snd (ContainerRemove E i force w), l))"
  "ContainerCommit (recording E) i dc comment (w, l) =
     (fst (ContainerCommit E i dc comment w), (snd (ContainerCommit E i dc comment w), l @ [(i, comment)]))"
  "ToDocker (recording E) = ToDocker E"
  "Quote (recording E) = Quote E"
  by (simp_all add: recording_def observed_def split: prod.splits)

lemma Commit_recording_same:
  "Commit (recording E) cacheKey (Some (RunHook (recording E) d)) (d, (w, l)) = (r, d', (w', l'))
   \<Longrightarrow> Commit E cacheKey (Some (RunHook E d)) (d, w) = (r, d', w')"
  unfolding Commit_def Commit_steps_def Commit_hook_RunHook Create_def Destroy_def
  by (auto simp: RunHook_recording recording_calls split: prod.splits option.splits sum.splits)

lemma Commit_recording_log:
  "Commit (recording E) cacheKey (Some (RunHook (recording E) d)) (d, (w, [])) = (r, d', (w', l'))
   \<Longrightarrow> (l' = [] \<and> r \<noteq> None) \<or> l' = [(fst (fst (Create E (d, w))), cacheKey)]"
  unfolding Commit_def Commit_steps_def Commit_hook_RunHook Create_def Destroy_def
  by (auto simp: RunHook_recording recording_calls split: prod.splits option.splits sum.splits)
     (metis option.distinct(1))+

text \<open>
  Claim C9. \<open>RunHook\<close> returns the empty string as its key on every path; \<open>Commit\<close>
  replaces the caller's key by a hook's key only when that key is not empty; hence a
  \<open>Commit\<close> whose hook is \<open>RunHook\<close> asks the engine for at most one commit, with the
  caller's key, unchanged, as the comment, and for exactly that one when it succeeds.
\<close>

theorem Commit_RunHook_keeps_cacheKey:
  "fst (fst (RunHook E d cid w0)) = []
   \<and> (\<forall>h tmp w1. h cid w0 = ((tmp, None), w1) \<longrightarrow>
         Commit_hook (Some h) cacheKey cid w0 = (Inr (if tmp \<noteq> [] then tmp else cacheKey), w1))
   \<and> (\<forall>r d' w' l.
         Commit (recording E) cacheKey (Some (RunHook (recording E) d)) (d, (w, [])) = (r, d', (w', l))
         \<longrightarrow> Commit E cacheKey (Some (RunHook E d)) (d, w) = (r, d', w')
             \<and> (l = [] \<or> l = [(fst (fst (Create E (d, w))), cacheKey)])
             \<and> (r = None \<longrightarrow> l = [(fst (fst (Create E (d, w))), cacheKey)]))"
proof -
  have hookkey: "\<forall>h tmp w1. h cid w0 = ((tmp, None), w1) \<longrightarrow>
         Commit_hook (Some h) cacheKey cid w0 = (Inr (if tmp \<noteq> [] then tmp else cacheKey), w1)"
    by (simp add: Commit_hook_def)
  have rec: "\<forall>r d' w' l.
         Commit (recording E) cacheKey (Some (RunHook (recording E) d)) (d, (w, [])) = (r, d', (w', l))
         \<longrightarrow> Commit E cacheKey (Some (RunHook E d)) (d, w) = (r, d', w')
             \<and> (l = [] \<or> l = [(fst (fst (Create E (d, w))), cacheKey)])
             \<and> (r = None \<longrightarrow> l = [(fst (fst (Create E (d, w))), cacheKey)])"
    using Commit_recording_same [of E cacheKey d w "[]"] Commit_recording_log [of E cacheKey d w]
    by blast
  from RunHook_key_empty [of E d cid w0] hookkey rec show ?thesis by blast
qed

text \<open>
  Scenario d of the spec under \<open>Commit\<close>: the process exits with status 0, the image
  \<open>i1\<close> is committed, the engine holds the key as its comment, and the one commit
  request that was made carried the key.
\<close>

theorem Commit_RunHook_keeps_cacheKey_witness:
  "fst (Commit sim ''run echo hi'' (Some (RunHook sim d_abc)) (d_abc, w_abc)) = None \<and>
   Image (config (fst (snd (Commit sim ''run echo hi'' (Some (RunHook sim d_abc)) (d_abc, w_abc)))))
     = ''i1'' \<and>
   ImageInspectWithRaw sim ''i1''
     (snd (snd (Commit sim ''run echo hi'' (Some (RunHook sim d_abc)) (d_abc, w_abc))))
     = Inr \<lparr>insp_Comment = ''run echo hi'', insp_Config = \<lparr>Image = ''abc'', settings = ''sh''\<rparr>\<rparr> \<and>
   snd (snd (snd (Commit (recording sim) ''run echo hi'' (Some (RunHook (recording sim) d_abc))
                    (d_abc, (w_abc, []))))) = [(''c1'', ''run echo hi'')]"
proof -
  obtain r d' w' l where
    run: "Commit (recording sim) ''run echo hi'' (Some (RunHook (recording sim) d_abc))
            (d_abc, (w_abc, [])) = (r, d', (w', l))"
    by (metis prod_cases4)
  have plain: "fst (Commit sim ''run echo hi'' (Some (RunHook sim d_abc)) (d_abc, w_abc)) = None"
    "Image (config (fst (snd (Commit sim ''run echo hi'' (Some (RunHook sim d_abc)) (d_abc, w_abc)))))
       = ''i1''"
    "ImageInspectWithRaw sim ''i1''
     (snd (snd (Commit sim ''run echo hi'' (Some (RunHook sim d_abc)) (d_abc, w_abc))))
     = Inr \<lparr>insp_Comment = ''run echo hi'', insp_Config = \<lparr>Image = ''abc'', settings = ''sh''\<rparr>\<rparr>"
    "fst (fst (Create sim (d_abc, w_abc))) = ''c1''"
    by (simp_all add: sim_eval)
  from Commit_RunHook_keeps_cacheKey [of sim d_abc "''c1''" w_abc "''run echo hi''" w_abc] run
  have same: "Commit sim ''run echo hi'' (Some (RunHook sim d_abc)) (d_abc, w_abc) = (r, d', w')"
    and log: "r = None \<longrightarrow> l = [(fst (fst (Create sim (d_abc, w_abc))), ''run echo hi'')]"
    by blast+
  from same plain(1) have "r = None" by simp
  with log plain(4) have "l = [(''c1'', ''run echo hi'')]" by simp
  with run plain show ?thesis by simp
qed

subsection \<open>CopyToContainer\<close>

text \<open>
  The tar writer never refuses a member here: each header declares the length of the
  content that follows it. The archive is therefore decided by the three encodings alone.
\<close>

lemma missing_snoc: "missing (a @ [m]) = Size (fst m) - int (length (snd m))"
  by (cases a) (simp_all add: missing_def)

lemma WriteMember_complete:
  "missing a \<le> 0 \<Longrightarrow>
   WriteMember name content a = (None, a @ [(regular_header name (length content), content)])"
  by (simp add: WriteMember_def WriteHeader_def Write_def missing_snoc)
     (simp add: regular_header_def)

lemma missing_complete: "missing (a @ [(regular_header name (length content), content)]) = 0"
  by (simp add: missing_snoc regular_header_def)

lemma BuildArchive_members:
  "BuildArchive E copyID c =
     (case MarshalImage E (ToImage E c [copyID]) of
        Inl err \<Rightarrow> (Some err, [])
      | Inr c1 \<Rightarrow>
          (case Marshal E (repos copyID) of
             Inl err \<Rightarrow> (Some err, [(regular_header (jsonFile copyID) (length c1), c1)])
           | Inr c2 \<Rightarrow>
               (case Marshal E (manifest copyID) of
                  Inl err \<Rightarrow> (Some err, [(regular_header (jsonFile copyID) (length c1), c1),
                                          (regular_header ''repositories'' (length c2), c2)])
                | Inr c3 \<Rightarrow> (None, [(regular_header (jsonFile copyID) (length c1), c1),
                                      (regular_header ''repositories'' (length c2), c2),
                                      (regular_header ''manifest.json'' (length c3), c3)]))))"
proof -
  have m0: "missing [] \<le> 0" by (simp add: missing_def)
  have m1: "\<And>n c. missing [(regular_header n (length c), c)] \<le> 0"
    using missing_complete [of "[]"] by simp
  have m2: "\<And>n c n' c'. missing [(regular_header n (length c), c), (regular_header n' (length c'), c')] \<le> 0"
    using missing_complete [of "[x]" for x] by simp
  show ?thesis
    by (simp add: BuildArchive_def WriteMember_complete m0 m1 m2 split: sum.splits)
qed

lemma CopyToContainer_archive_built:
  assumes "TempFile E w = (t, w1)"
      and "CopyToFile E (projr t) tw w1 = (c, w2)"
      and "\<not> isl t \<and> c = None \<longrightarrow> fst (CreateTestFile E w2) = None"
  shows "snd (snd (snd (CopyToContainer E copyID sz tw (d, w)))) =
     (if isl t \<or> c \<noteq> None then [] else snd (BuildArchive E copyID (config d)))"
proof (cases "isl t \<or> c \<noteq> None")
  case True
  with assms(1,2) show ?thesis
    by (cases t) (auto simp: CopyToContainer_def)
next
  case False
  then obtain tf where t: "t = Inr tf" and c: "c = None" by (cases t) auto
  with assms obtain w3 where p: "CreateTestFile E w2 = (None, w3)"
    by (cases "CreateTestFile E w2") auto
  from t c assms(1,2) p False show ?thesis
    by (simp add: CopyToContainer_def split: prod.splits option.splits)
qed

text \<open>
  Claim C5, as amended. For every id and config snapshot, the members that \<open>Build\<close> has
  written when it returns are an initial part of the three members \<open><id>.json\<close>,
  \<open>repositories\<close> and \<open>manifest.json\<close>, in this order, each header's declared size equal
  to its payload's byte length, where \<open>repositories\<close> encodes \<open>{id: {"latest": id}}\<close> and
  \<open>manifest.json\<close> encodes a one-element list whose \<open>Config\<close> is \<open><id>.json\<close>, whose
  \<open>RepoTags\<close> list is \<open>[id]\<close> and whose \<open>Layers\<close> list is \<open>[<id>/layer.tar]\<close>. Nothing is
  written when the spool file cannot be created or filled; otherwise the members are
  written up to the first encoding that fails, and all three when the three encodings
  succeed. (When the helper goroutine cannot create its file the process panics, and
  nothing is said about that run.)
\<close>

theorem CopyToContainer_archive:
  assumes "TempFile E w = (t, w1)"
      and "CopyToFile E (projr t) tw w1 = (c, w2)"
      and "\<not> isl t \<and> c = None \<longrightarrow> fst (CreateTestFile E w2) = None"
  shows "snd (snd (snd (CopyToContainer E copyID sz tw (d, w)))) =
     (if isl t \<or> c \<noteq> None then []
      else (case MarshalImage E (ToImage E (config d) [copyID]) of
              Inl err \<Rightarrow> []
            | Inr c1 \<Rightarrow> (regular_header (copyID @ ''.json'') (length c1), c1) #
                (case Marshal E (JObject [(copyID, JObject [(''latest'', JString copyID)])]) of
                   Inl err \<Rightarrow> []
                 | Inr c2 \<Rightarrow> (regular_header ''repositories'' (length c2), c2) #
                     (case Marshal E (JArray [JObject
                             [(''Config'', JString (copyID @ ''.json'')),
                              (''Layers'', JArray [JString (copyID @ ''/layer.tar'')]),
                              (''RepoTags'', JArray [JString copyID])]]) of
                        Inl err \<Rightarrow> []
                      | Inr c3 \<Rightarrow> [(regular_header ''manifest.json'' (length c3), c3)]))))
   \<and> Name (regular_header n k) = n \<and> Size (regular_header n k) = int k"
proof -
  have hdr: "Name (regular_header n k) = n \<and> Size (regular_header n k) = int k"
    by (simp add: regular_header_def)
  note built = CopyToContainer_archive_built [OF assms, of copyID sz d]
  have members: "snd (BuildArchive E copyID (config d)) =
     (case MarshalImage E (ToImage E (config d) [copyID]) of
              Inl err \<Rightarrow> []
            | Inr c1 \<Rightarrow> (regular_header (jsonFile copyID) (length c1), c1) #
                (case Marshal E (repos copyID) of
                   Inl err \<Rightarrow> []
                 | Inr c2 \<Rightarrow> (regular_header ''repositories'' (length c2), c2) #
                     (case Marshal E (manifest copyID) of
                        Inl err \<Rightarrow> []
                      | Inr c3 \<Rightarrow> [(regular_header ''manifest.json'' (length c3), c3)])))"
    by (simp add: BuildArchive_members split: sum.splits)
  from built members hdr show ?thesis
    unfolding repos_def manifest_def jsonFile_def tarFile_def by simp
qed

text \<open>Scenario c of the spec, with the bytes and the sizes of the three members.\<close>

theorem CopyToContainer_archive_witness:
  "map (\<lambda>m. (Name (fst m), Size (fst m), snd m))
     (snd (snd (snd (CopyToContainer sim ''img1'' 0 ''content'' (d_abc, w_status))))) =
     [(''img1.json'', 12, cmd_json), (''repositories'', 26, repos_json),
      (''manifest.json'', 72, manifest_json)]"
proof -
  let ?w1 = "w_status\<lparr>sim_files := [''/tmp/box-temporary-layer1'']\<rparr>"
  have t: "TempFile sim w_status = (Inr ''/tmp/box-temporary-layer1'', ?w1)"
    by (simp add: sim_def w_status_def w_abc_def)
  have c: "CopyToFile sim (projr (Inr ''/tmp/box-temporary-layer1'' :: string + string)) ''content'' ?w1
             = (None, ?w1)"
    by (simp add: sim_def)
  have p: "\<not> isl (Inr ''/tmp/box-temporary-layer1'' :: string + string) \<and> (None :: error option) = None
      \<longrightarrow> fst (CreateTestFile sim ?w1) = None"
    by (simp add: sim_def)
  from CopyToContainer_archive [OF t c p, of "''img1''" 0 d_abc]
  show ?thesis
    by (simp add: sim_def d_abc_def quoted_def regular_header_def cmd_json_def repos_json_def
          manifest_json_def)
qed

text \<open>
  Claim C5 as stated fails when the spool file cannot be created: \<open>CopyToContainer\<close>
  returns the error at line 242 and has written no member at all.
\<close>

theorem CopyToContainer_writes_nothing:
  "TempFile sim_nospool w_abc = (Inl ''no space left on device'', w_abc) \<and>
   CopyToContainer sim_nospool ''img1'' 0 ''content'' (d_abc, w_abc) =
     (Return (Some ''no space left on device''), d_abc, w_abc, [])"
  by (simp add: CopyToContainer_def sim_nospool_def sim_def)

text \<open>
  The scan of the response stops at the first piece that does not unmarshal or that has
  a string as its \<open>error\<close> member; pieces after it are not looked at.
\<close>

lemma ScanLines_one:
  "ScanLines E [l] =
     (case Unmarshal E l of
        Inl err \<Rightarrow> Some err
      | Inr m \<Rightarrow> (case m ''error'' of Some (JString res) \<Rightarrow> Some res | _ \<Rightarrow> None))"
  by (simp split: sum.splits option.splits json.splits)

lemma ScanLines_Cons:
  "ScanLines E (l # ls) = (if ScanLines E [l] \<noteq> None then ScanLines E [l] else ScanLines E ls)"
proof (cases "Unmarshal E l")
  case (Inl err)
  then show ?thesis by simp
next
  case (Inr m)
  show ?thesis
  proof (cases "m ''error''")
    case None
    with Inr show ?thesis by simp
  next
    case (Some v)
    with Inr show ?thesis by (cases v) simp_all
  qed
qed

lemma ScanLines_first:
  "ScanLines E lines =
     (case find (\<lambda>l. ScanLines E [l] \<noteq> None) lines of
        None \<Rightarrow> None
      | Some l \<Rightarrow> ScanLines E [l])"
proof (induction lines)
  case Nil
  show ?case by simp
next
  case (Cons l ls)
  show ?case
    by (subst ScanLines_Cons) (simp add: Cons.IH del: ScanLines.simps)
qed

lemma CopyToContainer_image:
  "fst (snd (CopyToContainer E copyID sz tw (d, w))) =
     (if fst (CopyToContainer E copyID sz tw (d, w)) = Return None
      then d\<lparr>config := (config d)\<lparr>Image := copyID\<rparr>\<rparr> else d)"
  by (simp add: CopyToContainer_def split: prod.splits sum.splits option.splits)

lemma CopyToContainer_import_result:
  assumes "TempFile E w = (Inr tf, w1)" and "CopyToFile E tf tw w1 = (None, w2)"
      and "CreateTestFile E w2 = (None, w3)" and "fst (BuildArchive E copyID (config d)) = None"
  shows "fst (CopyToContainer E copyID sz tw (d, w)) = Return (fst (ImportResult E copyID w3))"
  using assms
  by (cases "BuildArchive E copyID (config d)")
     (simp add: CopyToContainer_def split: prod.splits option.splits)

lemma ImportResult_cases:
  "ImageImport E [] (''box-'' @ copyID) w3 = (tr, w4) \<Longrightarrow>
   fst (ImportResult E copyID w3) =
     (case tr of
        Inl err \<Rightarrow> Some err
      | Inr (Inl err) \<Rightarrow> Some err
      | Inr (Inr content) \<Rightarrow> ScanLines E (Split_crlf content))"
  by (simp add: ImportResult_def split: sum.splits)

text \<open>
  Claim C6, as amended. The resulting image becomes \<open>id\<close> exactly when \<open>Build\<close> returns
  without error, and the build state is unchanged otherwise. When the archive has been
  written and the import call is made: if the transport-level call fails, \<open>Build\<close>
  returns that error; if reading the response fails, that error; otherwise the response
  is cut at every carriage return, line feed pair, and the pieces are taken in order up
  to the first one that does not unmarshal as a JSON object or whose \<open>error\<close> member is
  a string. \<open>Build\<close> returns an error exactly when there is such a piece: the
  unmarshalling error, or the text of the \<open>error\<close> member; it succeeds when there is
  none. What \<open>Build\<close> returns when that first piece is the empty one, as the piece after
  a final line ending is, is left open.
\<close>

theorem CopyToContainer_import:
  "fst (snd (CopyToContainer E copyID sz tw (d, w))) =
     (if fst (CopyToContainer E copyID sz tw (d, w)) = Return None
      then d\<lparr>config := (config d)\<lparr>Image := copyID\<rparr>\<rparr> else d)
   \<and> ScanLines E [l] =
       (case Unmarshal E l of
          Inl err \<Rightarrow> Some err
        | Inr m \<Rightarrow> (case m ''error'' of Some (JString res) \<Rightarrow> Some res | _ \<Rightarrow> None))
   \<and> (TempFile E w = (Inr tf, w1) \<and> CopyToFile E tf tw w1 = (None, w2) \<and>
       CreateTestFile E w2 = (None, w3) \<and> fst (BuildArchive E copyID (config d)) = None \<and>
       ImageImport E [] (''box-'' @ copyID) w3 = (tr, w4) \<and>
       (\<forall>content. tr = Inr (Inr content) \<longrightarrow>
          find (\<lambda>l. ScanLines E [l] \<noteq> None) (Split_crlf content) \<noteq> Some [])
       \<longrightarrow> fst (CopyToContainer E copyID sz tw (d, w)) =
             Return (case tr of
                       Inl err \<Rightarrow> Some err
                     | Inr (Inl err) \<Rightarrow> Some err
                     | Inr (Inr content) \<Rightarrow>
                         (case find (\<lambda>l. ScanLines E [l] \<noteq> None) (Split_crlf content) of
                            None \<Rightarrow> None
                          | Some l \<Rightarrow> ScanLines E [l])))"
proof -
  have "TempFile E w = (Inr tf, w1) \<and> CopyToFile E tf tw w1 = (None, w2) \<and>
       CreateTestFile E w2 = (None, w3) \<and> fst (BuildArchive E copyID (config d)) = None \<and>
       ImageImport E [] (''box-'' @ copyID) w3 = (tr, w4)
       \<longrightarrow> fst (CopyToContainer E copyID sz tw (d, w)) =
             Return (case tr of
                       Inl err \<Rightarrow> Some err
                     | Inr (Inl err) \<Rightarrow> Some err
                     | Inr (Inr content) \<Rightarrow>
                         (case find (\<lambda>l. ScanLines E [l] \<noteq> None) (Split_crlf content) of
                            None \<Rightarrow> None
                          | Some l \<Rightarrow> ScanLines E [l]))"
    using CopyToContainer_import_result [of E w tf w1 tw w2 w3 copyID d sz]
          ImportResult_cases [of E copyID w3 tr w4]
          ScanLines_first [of E]
    by (auto split: sum.splits)
  with CopyToContainer_image [of E copyID sz tw d w] ScanLines_one [of E l]
  show ?thesis by blast
qed

text \<open>What the example environment decodes and how the example responses are cut.\<close>

lemmas decode_eval =
  json_decode_def is_space_def is_digit_def unescape_def literal_def parse_number_def digits1_def
  status_line_def error_line_def quoted_def

lemma decode_status: "json_decode status_line = Inr [''status'' \<mapsto> JString ''ok'']"
  by (simp add: decode_eval)

lemma decode_error: "json_decode error_line = Inr [''error'' \<mapsto> JString ''boom'']"
  by (simp add: decode_eval)

lemma decode_text: "json_decode ''Loading layer'' = Inl ''invalid character in JSON input''"
  by (simp add: decode_eval)

lemma decode_empty: "json_decode [] = Inl ''unexpected end of JSON input''"
  by (simp add: decode_eval)

lemma split_examples:
  "Split_crlf status_line = [status_line]"
  "Split_crlf (status_line @ [CHR 0x0D, CHR 0x0A] @ error_line) = [status_line, error_line]"
  "Split_crlf (status_line @ [CHR 0x0D, CHR 0x0A]) = [status_line, []]"
  "Split_crlf ''Loading layer'' = [''Loading layer'']"
  "Split_crlf (status_line @ CHR 0x0D # CHR 0x0A # error_line) = [status_line, error_line]"
  "Split_crlf (status_line @ [CHR 0x0D, CHR 0x0A]) = [status_line, []]"
  by (simp_all add: status_line_def error_line_def quoted_def)

lemma sim_prep:
  "TempFile sim w = (Inr ''/tmp/box-temporary-layer1'',
                     w\<lparr>sim_files := ''/tmp/box-temporary-layer1'' # sim_files w\<rparr>)"
  "CopyToFile sim f b w = (None, w)"
  "CreateTestFile sim w = (None, w\<lparr>sim_files := ''test'' # sim_files w\<rparr>)"
  "fst (BuildArchive sim copyID c) = None"
  "ImageImport sim src ref w = (Inr (Inr (sim_response w)), w)"
  "Unmarshal sim = json_decode"
  by (simp_all add: sim_def BuildArchive_members split: sum.splits)

text \<open>
  A response of one status line: success, and the image is \<open>img1\<close>. A status line
  followed by an error line: the error's text is returned and the build state is as it
  was.
\<close>

theorem CopyToContainer_import_witness:
  "fst (CopyToContainer sim ''img1'' 0 ''content'' (d_abc, w_status)) = Return None \<and>
   Image (config (fst (snd (CopyToContainer sim ''img1'' 0 ''content'' (d_abc, w_status))))) = ''img1'' \<and>
   fst (CopyToContainer sim ''img1'' 0 ''content'' (d_abc, w_error)) = Return (Some ''boom'') \<and>
   fst (snd (CopyToContainer sim ''img1'' 0 ''content'' (d_abc, w_error))) = d_abc"
proof -
  let ?f = "''/tmp/box-temporary-layer1''"
  let ?w1 = "\<lambda>w. w\<lparr>sim_files := ?f # sim_files w\<rparr>"
  let ?w3 = "\<lambda>w. (?w1 w)\<lparr>sim_files := ''test'' # sim_files (?w1 w)\<rparr>"
  let ?both = "status_line @ [CHR 0x0D, CHR 0x0A] @ error_line"
  have one: "ScanLines sim [status_line] = None" "ScanLines sim [error_line] = Some ''boom''"
    by (simp_all add: sim_prep decode_status decode_error)
  have nonempty: "error_line \<noteq> []"
    by (simp add: error_line_def)
  have f1: "find (\<lambda>l. ScanLines sim [l] \<noteq> None) (Split_crlf status_line) = None"
    and f2: "find (\<lambda>l. ScanLines sim [l] \<noteq> None) (Split_crlf ?both) = Some error_line"
    by (simp_all add: split_examples one del: ScanLines.simps)
  have prep: "\<And>w. TempFile sim w = (Inr ?f, ?w1 w)"
    "\<And>w. CopyToFile sim ?f ''content'' (?w1 w) = (None, ?w1 w)"
    "\<And>w. CreateTestFile sim (?w1 w) = (None, ?w3 w)"
    "fst (BuildArchive sim ''img1'' (config d_abc)) = None"
    by (simp_all add: sim_prep)
  have i1: "ImageImport sim [] (''box-'' @ ''img1'') (?w3 w_status) = (Inr (Inr status_line), ?w3 w_status)"
    and i2: "ImageImport sim [] (''box-'' @ ''img1'') (?w3 w_error) = (Inr (Inr ?both), ?w3 w_error)"
    by (simp_all add: sim_prep w_status_def w_error_def)
  have nos1: "\<forall>content. (Inr (Inr status_line) :: error + (error + string)) = Inr (Inr content) \<longrightarrow>
          find (\<lambda>l. ScanLines sim [l] \<noteq> None) (Split_crlf content) \<noteq> Some []"
  proof (intro allI impI)
    fix content
    assume "(Inr (Inr status_line) :: error + (error + string)) = Inr (Inr content)"
    then have c: "content = status_line" by simp
    show "find (\<lambda>l. ScanLines sim [l] \<noteq> None) (Split_crlf content) \<noteq> Some []"
      unfolding c f1 by simp
  qed
  have nos2: "\<forall>content. (Inr (Inr ?both) :: error + (error + string)) = Inr (Inr content) \<longrightarrow>
          find (\<lambda>l. ScanLines sim [l] \<noteq> None) (Split_crlf content) \<noteq> Some []"
  proof (intro allI impI)
    fix content
    assume "(Inr (Inr ?both) :: error + (error + string)) = Inr (Inr content)"
    then have c: "content = ?both" by simp
    show "find (\<lambda>l. ScanLines sim [l] \<noteq> None) (Split_crlf content) \<noteq> Some []"
      unfolding c f2 using nonempty by simp
  qed
  note T1 = CopyToContainer_import [of sim "''img1''" 0 "''content''" d_abc w_status "[]" ?f
              "?w1 w_status" "?w1 w_status" "?w3 w_status" "Inr (Inr status_line)" "?w3 w_status"]
  have "fst (CopyToContainer sim ''img1'' 0 ''content'' (d_abc, w_status)) =
      Return (case (Inr (Inr status_line) :: error + (error + string)) of
                Inl err \<Rightarrow> Some err
              | Inr (Inl err) \<Rightarrow> Some err
              | Inr (Inr content) \<Rightarrow>
                  (case find (\<lambda>l. ScanLines sim [l] \<noteq> None) (Split_crlf content) of
                     None \<Rightarrow> None | Some l \<Rightarrow> ScanLines sim [l]))"
    by (rule T1 [THEN conjunct2, THEN conjunct2, THEN mp])
       (intro conjI prep i1 nos1)
  then have a: "fst (CopyToContainer sim ''img1'' 0 ''content'' (d_abc, w_status)) = Return None"
    by (simp only: sum.case f1 option.case)
  from T1 [THEN conjunct1] a
  have a': "fst (snd (CopyToContainer sim ''img1'' 0 ''content'' (d_abc, w_status))) =
       d_abc\<lparr>config := (config d_abc)\<lparr>Image := ''img1''\<rparr>\<rparr>"
    by simp
  note T2 = CopyToContainer_import [of sim "''img1''" 0 "''content''" d_abc w_error "[]" ?f
              "?w1 w_error" "?w1 w_error" "?w3 w_error" "Inr (Inr ?both)" "?w3 w_error"]
  have "fst (CopyToContainer sim ''img1'' 0 ''content'' (d_abc, w_error)) =
      Return (case (Inr (Inr ?both) :: error + (error + string)) of
                Inl err \<Rightarrow> Some err
              | Inr (Inl err) \<Rightarrow> Some err
              | Inr (Inr content) \<Rightarrow>
                  (case find (\<lambda>l. ScanLines sim [l] \<noteq> None) (Split_crlf content) of
                     None \<Rightarrow> None | Some l \<Rightarrow> ScanLines sim [l]))"
    by (rule T2 [THEN conjunct2, THEN conjunct2, THEN mp])
       (intro conjI prep i2 nos2)
  then have b: "fst (CopyToContainer sim ''img1'' 0 ''content'' (d_abc, w_error)) =
      Return (Some ''boom'')"
    by (simp only: sum.case f2 option.case one)
  from T2 [THEN conjunct1] b
  have b': "fst (snd (CopyToContainer sim ''img1'' 0 ''content'' (d_abc, w_error))) = d_abc"
    by simp
  from a a' b b' show ?thesis by simp
qed

lemma sim_copy:
  "fst (CopyToContainer sim copyID sz tw (d, w)) =
     Return (ScanLines sim (Split_crlf (sim_response w)))"
proof -
  let ?f = "''/tmp/box-temporary-layer1''"
  let ?w1 = "w\<lparr>sim_files := ?f # sim_files w\<rparr>"
  let ?w3 = "?w1\<lparr>sim_files := ''test'' # sim_files ?w1\<rparr>"
  have "fst (CopyToContainer sim copyID sz tw (d, w)) = Return (fst (ImportResult sim copyID ?w3))"
    by (rule CopyToContainer_import_result [where ?w1.0 = ?w1 and ?w2.0 = ?w1 and tf = ?f])
       (simp_all add: sim_prep)
  moreover have "fst (ImportResult sim copyID ?w3) = ScanLines sim (Split_crlf (sim_response w))"
    using ImportResult_cases [of sim copyID ?w3 "Inr (Inr (sim_response w))" ?w3]
    by (simp add: sim_prep)
  ultimately show ?thesis by simp
qed

text \<open>
  Claim C6 as stated fails on a response that is not JSON: the transport call succeeds,
  the only line of the response is no JSON object with an \<open>error\<close> field, and
  \<open>CopyToContainer\<close> returns the unmarshalling error (lines 300-303).
\<close>

theorem CopyToContainer_undecodable_line:
  "fst (ImageImport sim [] ''box-img1''
         (snd (CreateTestFile sim (snd (TempFile sim w_text))))) = Inr (Inr ''Loading layer'') \<and>
   Split_crlf ''Loading layer'' = [''Loading layer''] \<and>
   Unmarshal sim ''Loading layer'' = Inl ''invalid character in JSON input'' \<and>
   fst (CopyToContainer sim ''img1'' 0 ''content'' (d_abc, w_text)) =
     Return (Some ''invalid character in JSON input'')"
  by (simp add: sim_copy sim_prep split_examples decode_text w_text_def)

text \<open>
  The piece left open above: a response that ends with the line ending, as each line of
  the engine's stream does, has an empty last piece, which does not unmarshal; the
  import that answered with one status line is reported as failed.
\<close>

lemma CopyToContainer_trailing_line_end:
  "Split_crlf (sim_response w_crlf) = [status_line, []] \<and>
   fst (CopyToContainer sim ''img1'' 0 ''content'' (d_abc, w_crlf)) =
     Return (Some ''unexpected end of JSON input'')"
  by (simp add: sim_copy sim_prep split_examples decode_status decode_empty w_crlf_def)

text \<open>
  The archive is either empty or the one built from the id and the config; its members
  have the three names above, none of which is the layer's.
\<close>

lemma CopyToContainer_archive_cases:
  "snd (snd (snd (CopyToContainer E copyID sz tw (d, w)))) = [] \<or>
   snd (snd (snd (CopyToContainer E copyID sz tw (d, w)))) = snd (BuildArchive E copyID (config d))"
  by (simp add: CopyToContainer_def split: prod.splits sum.splits option.splits)

lemma BuildArchive_names:
  "Name ` fst ` set (snd (BuildArchive E copyID c))
     \<subseteq> {jsonFile copyID, ''repositories'', ''manifest.json''}"
  by (simp add: BuildArchive_members regular_header_def split: sum.splits)

lemma tarFile_not_written:
  "tarFile copyID \<notin> {jsonFile copyID, ''repositories'', ''manifest.json''}"
proof -
  have slash: "CHR ''/'' \<in> set (tarFile copyID)" by (simp add: tarFile_def)
  have "tarFile copyID \<noteq> ''repositories''" "tarFile copyID \<noteq> ''manifest.json''"
    using slash by auto
  moreover have "tarFile copyID \<noteq> jsonFile copyID"
    by (simp add: tarFile_def jsonFile_def)
  ultimately show ?thesis by simp
qed

lemma CopyToContainer_removes_spool:
  "TempFile E w = (Inr tf, w1) \<Longrightarrow>
   (\<exists>e. fst (CopyToContainer E copyID sz tw (d, w)) = Panic e) \<or>
   (\<exists>w2. fst (snd (snd (CopyToContainer E copyID sz tw (d, w)))) = RemoveFile E tf w2)"
  by (auto simp: CopyToContainer_def split: prod.splits sum.splits option.splits)

text \<open>
  Claim C10. For every input content stream, the archive that is written does not depend
  on the stream: two calls with the same id and build state, whatever their streams,
  sizes and worlds, write the same archive unless one of them writes none. No member
  named \<open><id>/layer.tar\<close> is ever written, although the manifest's layer list names it.
  The stream is only copied into the spool file, which no later step reads (the
  environment has no operation that reads a file) and which is removed before every
  return; the one way out without the removal is the panic of the helper goroutine.
\<close>

theorem CopyToContainer_ignores_content:
  "(snd (snd (snd (CopyToContainer E copyID sz tw (d, w)))) = []
      \<or> snd (snd (snd (CopyToContainer E copyID sz' tw' (d, w')))) = []
      \<or> snd (snd (snd (CopyToContainer E copyID sz tw (d, w))))
          = snd (snd (snd (CopyToContainer E copyID sz' tw' (d, w')))))
   \<and> tarFile copyID \<notin> Name ` fst ` set (snd (snd (snd (CopyToContainer E copyID sz tw (d, w)))))
   \<and> manifest copyID =
       JArray [JObject [(''Config'', JString (copyID @ ''.json'')),
                        (''Layers'', JArray [JString (tarFile copyID)]),
                        (''RepoTags'', JArray [JString copyID])]]
   \<and> tarFile copyID = copyID @ ''/layer.tar''
   \<and> (\<forall>tf w1. TempFile E w = (Inr tf, w1) \<longrightarrow>
         (\<exists>e. fst (CopyToContainer E copyID sz tw (d, w)) = Panic e) \<or>
         (\<exists>w2. fst (snd (snd (CopyToContainer E copyID sz tw (d, w)))) = RemoveFile E tf w2))"
proof -
  have same: "snd (snd (snd (CopyToContainer E copyID sz tw (d, w)))) = []
      \<or> snd (snd (snd (CopyToContainer E copyID sz' tw' (d, w')))) = []
      \<or> snd (snd (snd (CopyToContainer E copyID sz tw (d, w))))
          = snd (snd (snd (CopyToContainer E copyID sz' tw' (d, w'))))"
    using CopyToContainer_archive_cases [of E copyID sz tw d w]
          CopyToContainer_archive_cases [of E copyID sz' tw' d w']
    by auto
  have absent: "tarFile copyID \<notin>
      Name ` fst ` set (snd (snd (snd (CopyToContainer E copyID sz tw (d, w)))))"
  proof -
    have "Name ` fst ` set (snd (snd (snd (CopyToContainer E copyID sz tw (d, w)))))
            \<subseteq> {jsonFile copyID, ''repositories'', ''manifest.json''}"
      using CopyToContainer_archive_cases [of E copyID sz tw d w]
            BuildArchive_names [of E copyID "config d"]
      by (elim disjE) simp_all
    with tarFile_not_written [of copyID] show ?thesis by blast
  qed
  have listed: "manifest copyID =
       JArray [JObject [(''Config'', JString (copyID @ ''.json'')),
                        (''Layers'', JArray [JString (tarFile copyID)]),
                        (''RepoTags'', JArray [JString copyID])]]"
    "tarFile copyID = copyID @ ''/layer.tar''"
    by (simp_all add: manifest_def jsonFile_def tarFile_def)
  from same absent listed CopyToContainer_removes_spool [of E w _ _ copyID sz tw d]
  show ?thesis by blast
qed

text \<open>
  Two calls with different streams, sizes and engine responses write the same three
  members, and the spool file is gone after the call.
\<close>

theorem CopyToContainer_ignores_content_witness:
  "length (snd (snd (snd (CopyToContainer sim ''img1'' 3 ''one'' (d_abc, w_status))))) = 3 \<and>
   snd (snd (snd (CopyToContainer sim ''img1'' 3 ''one'' (d_abc, w_status))))
     = snd (snd (snd (CopyToContainer sim ''img1'' 7 ''another'' (d_abc, w_error)))) \<and>
   TempFile sim w_status = (Inr ''/tmp/box-temporary-layer1'',
                            w_status\<lparr>sim_files := [''/tmp/box-temporary-layer1'']\<rparr>) \<and>
   ''/tmp/box-temporary-layer1'' \<notin>
     set (sim_files (fst (snd (snd (CopyToContainer sim ''img1'' 3 ''one'' (d_abc, w_status))))))"
proof -
  let ?a = "snd (snd (snd (CopyToContainer sim ''img1'' 3 ''one'' (d_abc, w_status))))"
  let ?b = "snd (snd (snd (CopyToContainer sim ''img1'' 7 ''another'' (d_abc, w_error))))"
  let ?f = "''/tmp/box-temporary-layer1''"
  have prep: "\<And>w tw. TempFile sim w = (Inr ?f, w\<lparr>sim_files := ?f # sim_files w\<rparr>)"
    "\<And>w tw. CopyToFile sim (projr (Inr ?f :: error + string)) tw w = (None, w)"
    "\<And>w. fst (CreateTestFile sim w) = None"
    by (simp_all add: sim_prep)
  have la: "length ?a = 3"
    using CopyToContainer_archive_built [OF prep(1) prep(2), where w = w_status and tw = "''one''"
            and copyID = "''img1''" and sz = 3 and d = d_abc]
    by (simp add: prep BuildArchive_members sim_def)
  have lb: "length ?b = 3"
    using CopyToContainer_archive_built [OF prep(1) prep(2), where w = w_error and tw = "''another''"
            and copyID = "''img1''" and sz = 7 and d = d_abc]
    by (simp add: prep BuildArchive_members sim_def)
  from CopyToContainer_ignores_content
         [of sim "''img1''" 3 "''one''" d_abc w_status 7 "''another''" w_error]
  have "?a = [] \<or> ?b = [] \<or> ?a = ?b" by blast
  with la lb have eq: "?a = ?b" by auto
  have t: "TempFile sim w_status = (Inr ?f, w_status\<lparr>sim_files := [?f]\<rparr>)"
    by (simp add: sim_prep w_status_def w_abc_def)
  have np: "fst (CopyToContainer sim ''img1'' 3 ''one'' (d_abc, w_status)) = Return None"
    by (simp add: sim_copy w_status_def split_examples sim_prep decode_status)
  from CopyToContainer_ignores_content
         [of sim "''img1''" 3 "''one''" d_abc w_status 7 "''another''" w_error] t
  have "(\<exists>e. fst (CopyToContainer sim ''img1'' 3 ''one'' (d_abc, w_status)) = Panic e) \<or>
        (\<exists>w2. fst (snd (snd (CopyToContainer sim ''img1'' 3 ''one'' (d_abc, w_status))))
                = RemoveFile sim ?f w2)"
    by blast
  with np obtain w2 where
    "fst (snd (snd (CopyToContainer sim ''img1'' 3 ''one'' (d_abc, w_status)))) = RemoveFile sim ?f w2"
    by auto
  then have gone: "?f \<notin>
     set (sim_files (fst (snd (snd (CopyToContainer sim ''img1'' 3 ''one'' (d_abc, w_status))))))"
    by (simp add: sim_def)
  from la eq t gone show ?thesis by simp
qed

end
